theory Spec2Isabelle
  imports Complex_Main
begin

section \<open>Data model\<close>

text \<open>
  The subscription and payment lifecycle of \<^verbatim>\<open>backend/main.py\<close>. The three tables the
  handlers read and write (\<^verbatim>\<open>subscription_tiers\<close>, \<^verbatim>\<open>users\<close>,
  \<^verbatim>\<open>payment_transactions\<close>) are lists of rows. A point in time is an integer number of
  microseconds since the epoch (the resolution of Python's \<^verbatim>\<open>datetime\<close>); the ISO
  strings the database holds are the same instants, so a nullable timestamp column is a
  \<open>timestamp option\<close>. A \<^verbatim>\<open>datetime\<close> holds the instants of the years 1 to 9999 only:
  parsing a stored instant outside them and arithmetic that leaves them raise, as below.
  A string is the list of the bytes of its UTF-8 encoding, so equal strings are equal
  lists.
\<close>

type_synonym timestamp = int

datatype error =
  HTTPException nat | APIError | AttributeError | TypeError | OverflowError | ValueError

record tier_row =
  t_id :: string
  t_name :: string
  price_pula :: int
  listing_limit :: "int option"

record user_row =
  u_id :: string
  current_tier_id :: string
  subscription_expires_at :: "timestamp option"

record txn_row =
  txn_id :: string
  user_id :: string
  tier_id :: string
  amount_pula :: int
  payment_method :: string
  transaction_reference :: string
  status :: string
  orange_money_order_id :: "string option"
  orange_money_pay_token :: "string option"
  orange_money_pay_url :: "string option"
  orange_money_status :: "string option"
  orange_money_transaction_id :: "string option"
  user_payment_reference :: "string option"
  admin_notes :: "string option"
  completed_at :: "timestamp option"

text \<open>
  The state: the three tables, the number of write requests (\<^verbatim>\<open>update\<close>,
  \<^verbatim>\<open>insert\<close>) executed against the store so far, and the token cache of the one
  \<^verbatim>\<open>OrangeMoneyClient\<close> instance.
\<close>

record state =
  tiers :: "tier_row list"
  users :: "user_row list"
  txns :: "txn_row list"
  writes :: nat
  access_token :: "string option"
  token_expires_at :: "timestamp option"

subsection \<open>The query client\<close>

text \<open>
  \<^verbatim>\<open>.single().execute()\<close>: exactly one row is that row; no row and more than one row
  are the client's \<^verbatim>\<open>APIError\<close>, raised by \<^verbatim>\<open>execute()\<close>. The result type keeps the
  empty \<^verbatim>\<open>result.data\<close> that the handlers test for, which this client never returns.
\<close>

fun single :: "'a list \<Rightarrow> error + 'a option" where
  "single [] = Inl APIError"
| "single [x] = Inr (Some x)"
| "single (x # y # zs) = Inl APIError"

text \<open>The embedded resource \<^verbatim>\<open>subscription_tiers!fk(*)\<close>: the tier row the key points to, or null.\<close>

definition joined_tier :: "state \<Rightarrow> string \<Rightarrow> tier_row option" where
  "joined_tier s k = find (\<lambda>t. t_id t = k) (tiers s)"

definition update_users :: "string \<Rightarrow> (user_row \<Rightarrow> user_row) \<Rightarrow> state \<Rightarrow> state" where
  "update_users uid f s =
     s\<lparr>users := map (\<lambda>u. if u_id u = uid then f u else u) (users s), writes := Suc (writes s)\<rparr>"

definition update_txns :: "string \<Rightarrow> (txn_row \<Rightarrow> txn_row) \<Rightarrow> state \<Rightarrow> state" where
  "update_txns i f s =
     s\<lparr>txns := map (\<lambda>x. if txn_id x = i then f x else x) (txns s), writes := Suc (writes s)\<rparr>"

definition insert_txn :: "txn_row \<Rightarrow> state \<Rightarrow> state" where
  "insert_txn x s = s\<lparr>txns := txns s @ [x], writes := Suc (writes s)\<rparr>"

section \<open>Expiry enforcement and activation\<close>

text \<open>
  The instants a \<^verbatim>\<open>datetime\<close> holds, from 0001-01-01T00:00:00 to
  9999-12-31T23:59:59.999999 UTC, in microseconds since the epoch.
\<close>

definition datetime_min :: timestamp where
  "datetime_min = - 62135596800000000"

definition datetime_max :: timestamp where
  "datetime_max = 253402300799999999"

definition in_datetime :: "timestamp \<Rightarrow> bool" where
  "in_datetime t = (datetime_min \<le> t \<and> t \<le> datetime_max)"

text \<open>\<^verbatim>\<open>datetime.fromisoformat\<close> of a stored instant.\<close>

definition fromisoformat :: "timestamp \<Rightarrow> error + timestamp" where
  "fromisoformat t = (if in_datetime t then Inr t else Inl ValueError)"

definition day :: int where
  "day = 86400000000"

text \<open>
  \<^verbatim>\<open>timedelta(days=d)\<close> and \<^verbatim>\<open>timedelta(seconds=n)\<close>, in microseconds: a
  \<^verbatim>\<open>timedelta\<close> holds at most 999999999 days either way.
\<close>

definition timedelta_days :: "int \<Rightarrow> error + int" where
  "timedelta_days d = (if \<bar>d\<bar> \<le> 999999999 then Inr (d * day) else Inl OverflowError)"

definition timedelta_seconds :: "int \<Rightarrow> error + int" where
  "timedelta_seconds n =
     (if \<bar>n div 86400\<bar> \<le> 999999999 then Inr (n * 1000000) else Inl OverflowError)"

text \<open>\<^verbatim>\<open>datetime + timedelta\<close>.\<close>

definition datetime_add :: "timestamp \<Rightarrow> error + int \<Rightarrow> error + timestamp" where
  "datetime_add t delta =
     (case delta of
        Inl err \<Rightarrow> Inl err
      | Inr d \<Rightarrow> if in_datetime (t + d) then Inr (t + d) else Inl OverflowError)"

record enforce_result =
  tier :: tier_row
  is_active :: bool
  expires_at :: "timestamp option"
  was_downgraded :: bool
  previous_tier :: "string option"

text \<open>\<^verbatim>\<open>check_and_enforce_subscription(user_id)\<close>, at the clock reading \<open>now\<close>.\<close>

definition check_and_enforce_subscription ::
  "timestamp \<Rightarrow> string \<Rightarrow> state \<Rightarrow> (error + enforce_result) \<times> state" where
  "check_and_enforce_subscription now uid s =
     (case single (filter (\<lambda>u. u_id u = uid) (users s)) of
        Inl e \<Rightarrow> (Inl e, s)
      | Inr None \<Rightarrow> (Inl TypeError, s)
      | Inr (Some user_data) \<Rightarrow>
          (case joined_tier s (current_tier_id user_data) of
             None \<Rightarrow> (Inl TypeError, s)
           | Some tr \<Rightarrow>
               if t_name tr = ''free'' then
                 (Inr \<lparr>tier = tr, is_active = True, expires_at = None,
                       was_downgraded = False, previous_tier = None\<rparr>, s)
               else
                 (case subscription_expires_at user_data of
                    Some stored \<Rightarrow>
                      (case fromisoformat stored of
                         Inl e \<Rightarrow> (Inl e, s)
                       | Inr expiry_dt \<Rightarrow>
                           if now > expiry_dt then
                             (case single (filter (\<lambda>t. t_name t = ''free'') (tiers s)) of
                                Inl e \<Rightarrow> (Inl e, s)
                              | Inr None \<Rightarrow> (Inl TypeError, s)
                              | Inr (Some free_tier) \<Rightarrow>
                                  (Inr \<lparr>tier = free_tier, is_active = True, expires_at = None,
                                        was_downgraded = True,
                                        previous_tier = Some (t_name tr)\<rparr>,
                                   update_users uid
                                     (\<lambda>u. u\<lparr>current_tier_id := t_id free_tier,
                                             subscription_expires_at := None\<rparr>) s))
                           else
                             (Inr \<lparr>tier = tr, is_active = True, expires_at = Some stored,
                                   was_downgraded = False, previous_tier = None\<rparr>, s))
                  | None \<Rightarrow>
                      (Inr \<lparr>tier = tr, is_active = True, expires_at = None,
                            was_downgraded = False, previous_tier = None\<rparr>, s))))"

text \<open>
  \<^verbatim>\<open>activate_subscription(user_id, tier_id, duration_days=30)\<close>. It returns nothing; the
  result is the exception, if one is raised, and the state it leaves. \<open>new_expires\<close> is
  the value of the variable of that name, or the exception its computation raises, which
  comes before the update.
\<close>

definition new_expires :: "timestamp \<Rightarrow> timestamp option \<Rightarrow> int \<Rightarrow> error + timestamp" where
  "new_expires now current_expires duration_days =
     (case current_expires of
        Some stored \<Rightarrow>
          (case fromisoformat stored of
             Inl e \<Rightarrow> Inl e
           | Inr current_expires_dt \<Rightarrow>
               if current_expires_dt > now
               then datetime_add current_expires_dt (timedelta_days duration_days)
               else datetime_add now (timedelta_days duration_days))
      | None \<Rightarrow> datetime_add now (timedelta_days duration_days))"

definition activate_subscription ::
  "timestamp \<Rightarrow> string \<Rightarrow> string \<Rightarrow> int \<Rightarrow> state \<Rightarrow> (error + unit) \<times> state" where
  "activate_subscription now uid tid duration_days s =
     (case single (filter (\<lambda>u. u_id u = uid) (users s)) of
        Inl e \<Rightarrow> (Inl e, s)
      | Inr None \<Rightarrow> (Inl AttributeError, s)
      | Inr (Some user_data) \<Rightarrow>
          (case new_expires now (subscription_expires_at user_data) duration_days of
             Inl e \<Rightarrow> (Inl e, s)
           | Inr expires \<Rightarrow>
               (Inr (),
                update_users uid
                  (\<lambda>u. u\<lparr>current_tier_id := tid,
                          subscription_expires_at := Some expires\<rparr>)
                  s)))"

section \<open>Strings and numbers of the source language\<close>

text \<open>
  \<^verbatim>\<open>str.upper()\<close> and \<^verbatim>\<open>str.lower()\<close> are the language's, defined by the Unicode
  case mappings (\<^verbatim>\<open>'succe\xdf'.upper()\<close> is \<^verbatim>\<open>'SUCCESS'\<close>): the handlers take them from
  the environment (\<open>str_upper\<close>, \<open>str_lower\<close> below), and what is proved of a handler
  holds for every such function. The two functions here are their restriction to ASCII
  strings, for the worked examples.
\<close>

definition upper_char :: "char \<Rightarrow> char" where
  "upper_char c =
     (case map_of (zip ''abcdefghijklmnopqrstuvwxyz'' ''ABCDEFGHIJKLMNOPQRSTUVWXYZ'') c of
        Some d \<Rightarrow> d
      | None \<Rightarrow> c)"

definition lower_char :: "char \<Rightarrow> char" where
  "lower_char c =
     (case map_of (zip ''ABCDEFGHIJKLMNOPQRSTUVWXYZ'' ''abcdefghijklmnopqrstuvwxyz'') c of
        Some d \<Rightarrow> d
      | None \<Rightarrow> c)"

definition ascii_upper :: "string \<Rightarrow> string" where
  "ascii_upper = map upper_char"

definition ascii_lower :: "string \<Rightarrow> string" where
  "ascii_lower = map lower_char"

text \<open>\<^verbatim>\<open>str(n)\<close> of an integer, as an f-string formats it.\<close>

fun str_nat :: "nat \<Rightarrow> string" where
  "str_nat n =
     (if n < 10 then [''0123456789'' ! n]
      else str_nat (n div 10) @ [''0123456789'' ! (n mod 10)])"

definition str_int :: "int \<Rightarrow> string" where
  "str_int i = (if i < 0 then ''-'' @ str_nat (nat (- i)) else str_nat (nat i))"

text \<open>
  A Python \<^verbatim>\<open>float\<close>: a finite value is a rational number, and the comparison of a float
  with an \<^verbatim>\<open>int\<close> is the exact one; infinities and NaN differ from every integer.
\<close>

datatype py_float = Finite rat | PosInf | NegInf | NaN

fun float_ne_int :: "py_float \<Rightarrow> int \<Rightarrow> bool" where
  "float_ne_int (Finite q) i = (q \<noteq> of_int i)"
| "float_ne_int PosInf i = True"
| "float_ne_int NegInf i = True"
| "float_ne_int NaN i = True"

section \<open>The environment of one request\<close>

text \<open>
  What a request takes from outside the program: the reading of the clock
  (\<^verbatim>\<open>datetime.now(timezone.utc)\<close>; one request reads it at one instant) and its
  \<^verbatim>\<open>strftime('%Y%m%d')\<close>, the fresh \<^verbatim>\<open>uuid.uuid4()\<close>, the configured
  \<^verbatim>\<open>whatsapp_number\<close>, the language's \<^verbatim>\<open>str.upper\<close> and \<^verbatim>\<open>str.lower\<close>, and what the
  three HTTP exchanges with Orange Money come to: an exception, or the fields the code
  reads from the JSON reply.
\<close>

datatype 'a http = RequestException | Response 'a

record om_response =
  om_payment_url :: "string option"
  om_pay_token :: "string option"

record env =
  clock :: timestamp
  today :: string
  uuid4 :: string
  whatsapp_number :: string
  str_upper :: "string \<Rightarrow> string"
  str_lower :: "string \<Rightarrow> string"
  token_reply :: "(string \<times> int option) http"
  initiate_reply :: "om_response http"
  status_reply :: "string option http"

section \<open>OrangeMoneyClient\<close>

text \<open>
  \<^verbatim>\<open>_get_access_token\<close>: the cached token while it is valid; otherwise the \<^verbatim>\<open>try\<close>
  block with the token request, any exception of which becomes \<^verbatim>\<open>HTTPException(502)\<close>.
  The block stores the token before it computes the expiry, so an expiry out of range
  leaves the new token with the old expiry.
\<close>

definition request_token :: "env \<Rightarrow> state \<Rightarrow> (error + string) \<times> state" where
  "request_token e s =
     (case token_reply e of
        RequestException \<Rightarrow> (Inl (HTTPException 502), s)
      | Response (tok, expires_in) \<Rightarrow>
          (case datetime_add (clock e)
                  (timedelta_seconds (case expires_in of None \<Rightarrow> 3500 | Some n \<Rightarrow> n)) of
             Inl err \<Rightarrow> (Inl (HTTPException 502), s\<lparr>access_token := Some tok\<rparr>)
           | Inr ex \<Rightarrow> (Inr tok, s\<lparr>access_token := Some tok, token_expires_at := Some ex\<rparr>)))"

definition get_access_token :: "env \<Rightarrow> state \<Rightarrow> (error + string) \<times> state" where
  "get_access_token e s =
     (case (access_token s, token_expires_at s) of
        (Some tok, Some ex) \<Rightarrow>
          if tok \<noteq> [] \<and> clock e < ex then (Inr tok, s) else request_token e s
      | _ \<Rightarrow> request_token e s)"

text \<open>\<^verbatim>\<open>initiate_payment\<close>: the token, then the payment request inside \<^verbatim>\<open>try\<close>.\<close>

definition initiate_payment ::
  "env \<Rightarrow> string \<Rightarrow> int \<Rightarrow> state \<Rightarrow> (error + om_response) \<times> state" where
  "initiate_payment e order_id amount s =
     (case get_access_token e s of
        (Inl err, s') \<Rightarrow> (Inl err, s')
      | (Inr token, s') \<Rightarrow>
          (case initiate_reply e of
             RequestException \<Rightarrow> (Inl (HTTPException 502), s')
           | Response r \<Rightarrow> (Inr r, s')))"

text \<open>
  \<^verbatim>\<open>check_transaction_status\<close>: the token is fetched before the \<^verbatim>\<open>try\<close>; inside it, a
  \<^verbatim>\<open>RequestException\<close> gives the status \<^verbatim>\<open>UNKNOWN\<close>. The result is the entry
  \<^verbatim>\<open>"status"\<close> of the returned dictionary, if it has one.
\<close>

definition check_transaction_status ::
  "env \<Rightarrow> string \<Rightarrow> int \<Rightarrow> state \<Rightarrow> (error + string option) \<times> state" where
  "check_transaction_status e order_id amount s =
     (case get_access_token e s of
        (Inl err, s') \<Rightarrow> (Inl err, s')
      | (Inr token, s') \<Rightarrow>
          (case status_reply e of
             RequestException \<Rightarrow> (Inr (Some ''UNKNOWN''), s')
           | Response r \<Rightarrow> (Inr r, s')))"

section \<open>Requests and responses\<close>

datatype SubscriptionTier = FREE | BASIC | STANDARD | PREMIUM

fun tier_value :: "SubscriptionTier \<Rightarrow> string" where
  "tier_value FREE = ''free''"
| "tier_value BASIC = ''basic''"
| "tier_value STANDARD = ''standard''"
| "tier_value PREMIUM = ''premium''"

record InitiateSubscription =
  sub_tier :: SubscriptionTier
  sub_payment_method :: string

record OrangeMoneyCallback =
  cb_order_id :: string
  cb_status :: string
  cb_transaction_id :: string
  cb_amount :: py_float
  cb_currency :: string

record ConfirmPaymentRequest =
  conf_transaction_id :: string
  conf_payment_reference :: string

record AdminApprovePayment =
  adm_transaction_id :: string
  adm_admin_notes :: "string option"

record PaymentInitResponse =
  init_payment_url :: "string option"
  init_transaction_id :: string
  init_status :: string
  init_message :: string

record PaymentStatusResponse =
  ps_transaction_id :: string
  ps_status :: string
  ps_tier_name :: string
  ps_amount_pula :: int
  ps_message :: string

section \<open>Initiation and confirmation\<close>

text \<open>The reference \<^verbatim>\<open>PD-<date>-<first eight characters of the id, upper case>\<close>.\<close>

definition txn_ref :: "env \<Rightarrow> string" where
  "txn_ref e = ''PD-'' @ today e @ ''-'' @ str_upper e (take 8 (uuid4 e))"

text \<open>The row \<^verbatim>\<open>txn_data\<close> as it is first built; the columns it leaves out are null.\<close>

definition txn_data :: "env \<Rightarrow> string \<Rightarrow> tier_row \<Rightarrow> string \<Rightarrow> txn_row" where
  "txn_data e uid tr pm =
     \<lparr>txn_id = uuid4 e, user_id = uid, tier_id = t_id tr, amount_pula = price_pula tr,
      payment_method = pm, transaction_reference = txn_ref e, status = ''pending'',
      orange_money_order_id = None, orange_money_pay_token = None,
      orange_money_pay_url = None, orange_money_status = None,
      orange_money_transaction_id = None, user_payment_reference = None,
      admin_notes = None, completed_at = None\<rparr>"

definition unavailable_message :: "env \<Rightarrow> tier_row \<Rightarrow> string" where
  "unavailable_message e tr =
     ''Orange Money is temporarily unavailable. '' @
     ''Please send P'' @ str_int (price_pula tr) @ '' via Orange Money to '' @ whatsapp_number e @ '' '' @
     ''with reference: '' @ txn_ref e @ '', then confirm your payment.''"

definition myzaka_message :: "env \<Rightarrow> tier_row \<Rightarrow> string" where
  "myzaka_message e tr =
     ''Send P'' @ str_int (price_pula tr) @ '' via MyZaka to '' @ whatsapp_number e @ ''. '' @
     ''Use reference: '' @ txn_ref e @ ''. '' @
     ''After payment, confirm with your MyZaka receipt reference.''"

definition manual_message :: "env \<Rightarrow> tier_row \<Rightarrow> string" where
  "manual_message e tr =
     ''Send P'' @ str_int (price_pula tr) @ '' to '' @ whatsapp_number e @ ''. '' @
     ''Use reference: '' @ txn_ref e @ ''. '' @
     ''Contact us on WhatsApp with proof of payment for activation.''"

definition inserted ::
  "env \<Rightarrow> txn_row \<Rightarrow> string option \<Rightarrow> string \<Rightarrow> state \<Rightarrow> (error + PaymentInitResponse) \<times> state" where
  "inserted e row payment_url message s =
     (Inr \<lparr>init_payment_url = payment_url, init_transaction_id = uuid4 e,
           init_status = ''pending'', init_message = message\<rparr>,
      insert_txn row s)"

text \<open>\<^verbatim>\<open>initiate_subscription(subscription, user)\<close>; \<open>uid\<close> is \<^verbatim>\<open>user.id\<close>.\<close>

definition initiate_subscription ::
  "env \<Rightarrow> string \<Rightarrow> InitiateSubscription \<Rightarrow> state \<Rightarrow> (error + PaymentInitResponse) \<times> state" where
  "initiate_subscription e uid subscription s =
     (case single (filter (\<lambda>t. t_name t = tier_value (sub_tier subscription)) (tiers s)) of
        Inl err \<Rightarrow> (Inl err, s)
      | Inr None \<Rightarrow> (Inl TypeError, s)
      | Inr (Some tr) \<Rightarrow>
          if price_pula tr = 0 then (Inl (HTTPException 400), s)
          else
            (case filter (\<lambda>x. user_id x = uid \<and> tier_id x = t_id tr \<and> status x = ''pending'')
                    (txns s) of
               txn # _ \<Rightarrow>
                 (Inr \<lparr>init_payment_url = orange_money_pay_url txn,
                       init_transaction_id = txn_id txn,
                       init_status = ''pending'',
                       init_message =
                         ''You already have a pending payment for '' @ t_name tr @
                         '' tier. Complete your existing payment or wait for it to expire.''\<rparr>,
                  s)
             | [] \<Rightarrow>
                 if sub_payment_method subscription = ''orange_money'' then
                   (case initiate_payment e (txn_ref e) (price_pula tr) s of
                      (Inr om, s') \<Rightarrow>
                        inserted e
                          ((txn_data e uid tr (sub_payment_method subscription))
                             \<lparr>orange_money_order_id := Some (txn_ref e),
                              orange_money_pay_token :=
                                Some (case om_pay_token om of None \<Rightarrow> [] | Some t \<Rightarrow> t)\<rparr>)
                          (om_payment_url om) ''Redirecting to Orange Money for payment'' s'
                    | (Inl (HTTPException c), s') \<Rightarrow>
                        inserted e
                          ((txn_data e uid tr (sub_payment_method subscription))
                             \<lparr>payment_method := ''manual''\<rparr>)
                          None (unavailable_message e tr) s'
                    | (Inl err, s') \<Rightarrow> (Inl err, s'))
                 else if sub_payment_method subscription = ''myzaka'' then
                   inserted e (txn_data e uid tr (sub_payment_method subscription))
                     None (myzaka_message e tr) s
                 else
                   inserted e (txn_data e uid tr (sub_payment_method subscription))
                     None (manual_message e tr) s))"

text \<open>
  The tier name of a transaction read with \<^verbatim>\<open>subscription_tiers!tier_id(name)\<close>:
  \<^verbatim>\<open>txn.get("subscription_tiers", {}).get("name", "unknown")\<close> raises on the null the
  embedding gives when the tier row is missing.
\<close>

definition txn_tier_name :: "state \<Rightarrow> txn_row \<Rightarrow> error + string" where
  "txn_tier_name s txn =
     (case joined_tier s (tier_id txn) of None \<Rightarrow> Inl AttributeError | Some tr \<Rightarrow> Inr (t_name tr))"

text \<open>\<^verbatim>\<open>confirm_payment(confirmation, user)\<close>: the update comes before the tier name is read.\<close>

definition confirm_payment ::
  "string \<Rightarrow> ConfirmPaymentRequest \<Rightarrow> state \<Rightarrow> (error + PaymentStatusResponse) \<times> state" where
  "confirm_payment uid confirmation s =
     (case single (filter (\<lambda>x. txn_id x = conf_transaction_id confirmation \<and> user_id x = uid
                               \<and> status x = ''pending'') (txns s)) of
        Inl err \<Rightarrow> (Inl err, s)
      | Inr None \<Rightarrow> (Inl (HTTPException 404), s)
      | Inr (Some txn) \<Rightarrow>
          (let s' = update_txns (txn_id txn)
                      (\<lambda>x. x\<lparr>user_payment_reference := Some (conf_payment_reference confirmation),
                              status := ''awaiting_verification''\<rparr>) s
           in case txn_tier_name s txn of
                Inl err \<Rightarrow> (Inl err, s')
              | Inr tier_name \<Rightarrow>
                  (Inr \<lparr>ps_transaction_id = txn_id txn, ps_status = ''awaiting_verification'',
                        ps_tier_name = tier_name, ps_amount_pula = amount_pula txn,
                        ps_message =
                          ''Payment reference received. Your '' @ tier_name @
                          '' tier upgrade will be activated '' @
                          ''once we verify the payment. This usually takes a few minutes during business hours.''\<rparr>,
                   s')))"

section \<open>Status inquiry, webhook and admin actions\<close>

definition status_messages :: "txn_row \<Rightarrow> string \<Rightarrow> string" where
  "status_messages txn tier_name =
     (if status txn = ''pending'' then
        ''Payment pending. Complete your P'' @ str_int (amount_pula txn) @
        '' payment to activate '' @ tier_name @ '' tier.''
      else if status txn = ''awaiting_verification'' then
        ''Payment submitted. Waiting for verification of your '' @ tier_name @ '' tier upgrade.''
      else if status txn = ''completed'' then
        ''Payment complete! Your '' @ tier_name @ '' tier is active.''
      else if status txn = ''failed'' then ''Payment failed. Please try again or contact support.''
      else if status txn = ''refunded'' then ''This payment has been refunded.''
      else ''Unknown status'')"

text \<open>The default answer of the status inquiry: the row as it was read.\<close>

definition current_db_status :: "txn_row \<Rightarrow> string \<Rightarrow> PaymentStatusResponse" where
  "current_db_status txn tier_name =
     \<lparr>ps_transaction_id = txn_id txn, ps_status = status txn, ps_tier_name = tier_name,
      ps_amount_pula = amount_pula txn, ps_message = status_messages txn tier_name\<rparr>"

text \<open>
  \<^verbatim>\<open>om_order_id = txn.get("orange_money_order_id")\<close>, tested with \<^verbatim>\<open>if om_order_id\<close>:
  null and the empty string both count as no order id.
\<close>

definition om_order_id :: "txn_row \<Rightarrow> string" where
  "om_order_id txn = (case orange_money_order_id txn of None \<Rightarrow> [] | Some oid \<Rightarrow> oid)"

text \<open>\<^verbatim>\<open>check_payment_status(transaction_id, user)\<close>.\<close>

definition check_payment_status ::
  "env \<Rightarrow> string \<Rightarrow> string \<Rightarrow> state \<Rightarrow> (error + PaymentStatusResponse) \<times> state" where
  "check_payment_status e transaction_id uid s =
     (case single (filter (\<lambda>x. txn_id x = transaction_id \<and> user_id x = uid) (txns s)) of
        Inl err \<Rightarrow> (Inl err, s)
      | Inr None \<Rightarrow> (Inl (HTTPException 404), s)
      | Inr (Some txn) \<Rightarrow>
          (case txn_tier_name s txn of
             Inl err \<Rightarrow> (Inl err, s)
           | Inr tier_name \<Rightarrow>
               if payment_method txn = ''orange_money'' \<and> status txn = ''pending''
                  \<and> om_order_id txn \<noteq> []
               then
                 (case check_transaction_status e (om_order_id txn) (amount_pula txn) s of
                    (Inl err, s') \<Rightarrow> (Inl err, s')
                  | (Inr om_status, s') \<Rightarrow>
                      (let remote_status =
                             str_upper e (case om_status of None \<Rightarrow> [] | Some st \<Rightarrow> st)
                       in if remote_status = ''SUCCESS'' then
                            (case activate_subscription (clock e) uid (tier_id txn) 30
                                    (update_txns (txn_id txn)
                                       (\<lambda>x. x\<lparr>status := ''completed'',
                                               completed_at := Some (clock e),
                                               orange_money_status := Some ''SUCCESS''\<rparr>) s') of
                               (Inl err, s'') \<Rightarrow> (Inl err, s'')
                             | (Inr u, s'') \<Rightarrow>
                                 (Inr \<lparr>ps_transaction_id = txn_id txn, ps_status = ''completed'',
                                       ps_tier_name = tier_name, ps_amount_pula = amount_pula txn,
                                       ps_message =
                                         ''Payment confirmed! Your '' @ tier_name @
                                         '' tier is now active.''\<rparr>,
                                  s''))
                          else if remote_status \<in> {''FAILED'', ''EXPIRED'', ''CANCELLED''} then
                            (Inr \<lparr>ps_transaction_id = txn_id txn, ps_status = ''failed'',
                                  ps_tier_name = tier_name, ps_amount_pula = amount_pula txn,
                                  ps_message =
                                    ''Payment '' @ str_lower e remote_status @ ''. Please try again.''\<rparr>,
                             update_txns (txn_id txn)
                               (\<lambda>x. x\<lparr>status := ''failed'',
                                       orange_money_status := Some remote_status\<rparr>) s')
                          else (Inr (current_db_status txn tier_name), s')))
               else (Inr (current_db_status txn tier_name), s)))"

text \<open>\<^verbatim>\<open>orange_money_webhook(callback_data)\<close>; the result is the \<^verbatim>\<open>"status"\<close> of the reply.\<close>

definition orange_money_webhook ::
  "env \<Rightarrow> OrangeMoneyCallback \<Rightarrow> state \<Rightarrow> (error + string) \<times> state" where
  "orange_money_webhook e callback_data s =
     (case single (filter (\<lambda>x. orange_money_order_id x = Some (cb_order_id callback_data))
                     (txns s)) of
        Inl err \<Rightarrow> (Inl err, s)
      | Inr None \<Rightarrow> (Inl (HTTPException 404), s)
      | Inr (Some transaction) \<Rightarrow>
          if status transaction \<in> {''completed'', ''failed'', ''refunded''} then
            (Inr ''already_processed'', s)
          else if float_ne_int (cb_amount callback_data) (amount_pula transaction) then
            (Inr ''amount_mismatch'',
             update_txns (txn_id transaction)
               (\<lambda>x. x\<lparr>status := ''failed'', orange_money_status := Some ''AMOUNT_MISMATCH''\<rparr>) s)
          else if str_upper e (cb_status callback_data) \<in> {''SUCCESS'', ''SUCCESSFULL''} then
            (case activate_subscription (clock e) (user_id transaction) (tier_id transaction) 30
                    (update_txns (txn_id transaction)
                       (\<lambda>x. x\<lparr>status := ''completed'',
                               completed_at := Some (clock e),
                               orange_money_status := Some (cb_status callback_data),
                               orange_money_transaction_id :=
                                 Some (cb_transaction_id callback_data)\<rparr>) s) of
               (Inl err, s') \<Rightarrow> (Inl err, s')
             | (Inr u, s') \<Rightarrow> (Inr ''processed'', s'))
          else
            (Inr ''processed'',
             update_txns (txn_id transaction)
               (\<lambda>x. x\<lparr>status := ''failed'',
                       orange_money_status := Some (cb_status callback_data)\<rparr>) s))"

text \<open>\<^verbatim>\<open>if approval.admin_notes\<close>: notes that are given and not the empty string.\<close>

definition with_notes :: "AdminApprovePayment \<Rightarrow> txn_row \<Rightarrow> txn_row" where
  "with_notes approval x =
     (case adm_admin_notes approval of
        None \<Rightarrow> x
      | Some n \<Rightarrow> if n = [] then x else x\<lparr>admin_notes := Some n\<rparr>)"

definition pending_txn :: "string \<Rightarrow> state \<Rightarrow> error + txn_row option" where
  "pending_txn i s =
     single (filter (\<lambda>x. txn_id x = i \<and> status x \<in> {''pending'', ''awaiting_verification''})
               (txns s))"

text \<open>\<^verbatim>\<open>admin_approve_payment(approval, admin)\<close>.\<close>

definition admin_approve_payment ::
  "env \<Rightarrow> AdminApprovePayment \<Rightarrow> state \<Rightarrow> (error + PaymentStatusResponse) \<times> state" where
  "admin_approve_payment e approval s =
     (case pending_txn (adm_transaction_id approval) s of
        Inl err \<Rightarrow> (Inl err, s)
      | Inr None \<Rightarrow> (Inl (HTTPException 404), s)
      | Inr (Some txn) \<Rightarrow>
          (case txn_tier_name s txn of
             Inl err \<Rightarrow> (Inl err, s)
           | Inr tier_name \<Rightarrow>
               (case activate_subscription (clock e) (user_id txn) (tier_id txn) 30
                       (update_txns (txn_id txn)
                          (\<lambda>x. with_notes approval
                                  (x\<lparr>status := ''completed'', completed_at := Some (clock e)\<rparr>)) s) of
                  (Inl err, s') \<Rightarrow> (Inl err, s')
                | (Inr u, s') \<Rightarrow>
                    (Inr \<lparr>ps_transaction_id = txn_id txn, ps_status = ''completed'',
                          ps_tier_name = tier_name, ps_amount_pula = amount_pula txn,
                          ps_message =
                            ''Payment approved. User upgraded to '' @ tier_name @ '' tier.''\<rparr>,
                     s'))))"

text \<open>\<^verbatim>\<open>admin_reject_payment(approval, admin)\<close>.\<close>

definition admin_reject_payment ::
  "AdminApprovePayment \<Rightarrow> state \<Rightarrow> (error + PaymentStatusResponse) \<times> state" where
  "admin_reject_payment approval s =
     (case pending_txn (adm_transaction_id approval) s of
        Inl err \<Rightarrow> (Inl err, s)
      | Inr None \<Rightarrow> (Inl (HTTPException 404), s)
      | Inr (Some txn) \<Rightarrow>
          (case txn_tier_name s txn of
             Inl err \<Rightarrow> (Inl err, s)
           | Inr tier_name \<Rightarrow>
               (Inr \<lparr>ps_transaction_id = txn_id txn, ps_status = ''failed'',
                     ps_tier_name = tier_name, ps_amount_pula = amount_pula txn,
                     ps_message =
                       ''Payment rejected.'' @
                       (case adm_admin_notes approval of
                          None \<Rightarrow> []
                        | Some n \<Rightarrow> if n = [] then [] else '' Reason: '' @ n)\<rparr>,
                update_txns (txn_id txn)
                  (\<lambda>x. with_notes approval (x\<lparr>status := ''failed''\<rparr>)) s)))"

section \<open>Requests against the ledger\<close>

text \<open>
  The requests that reach the ledger, each with the identity the authentication layer
  hands over. \<open>Enforce\<close> stands for the handlers that call
  \<^verbatim>\<open>check_and_enforce_subscription\<close> first (\<^verbatim>\<open>/subscriptions/status\<close> and the creation of
  a listing). \<open>handle\<close> is the state a request leaves, whether it answers or raises.
\<close>

datatype request =
    Enforce string
  | Initiate string InitiateSubscription
  | Confirm string ConfirmPaymentRequest
  | CheckPayment string string
  | Webhook OrangeMoneyCallback
  | Approve AdminApprovePayment
  | Reject AdminApprovePayment

fun handle :: "env \<Rightarrow> request \<Rightarrow> state \<Rightarrow> state" where
  "handle e (Enforce uid) s = snd (check_and_enforce_subscription (clock e) uid s)"
| "handle e (Initiate uid subscription) s = snd (initiate_subscription e uid subscription s)"
| "handle e (Confirm uid confirmation) s = snd (confirm_payment uid confirmation s)"
| "handle e (CheckPayment transaction_id uid) s = snd (check_payment_status e transaction_id uid s)"
| "handle e (Webhook callback_data) s = snd (orange_money_webhook e callback_data s)"
| "handle e (Approve approval) s = snd (admin_approve_payment e approval s)"
| "handle e (Reject approval) s = snd (admin_reject_payment approval s)"

fun run :: "(env \<times> request) list \<Rightarrow> state \<Rightarrow> state" where
  "run [] s = s"
| "run ((e, r) # rs) s = run rs (handle e r s)"

section \<open>Invariants\<close>

text \<open>The transactions of a user for a tier that are in one of the given statuses.\<close>

definition txns_in :: "string set \<Rightarrow> string \<Rightarrow> string \<Rightarrow> state \<Rightarrow> txn_row list" where
  "txns_in S uid k s =
     filter (\<lambda>x. user_id x = uid \<and> tier_id x = k \<and> status x \<in> S) (txns s)"

text \<open>At most one transaction of each (user, tier) pair is in one of the given statuses.\<close>

definition at_most_one :: "string set \<Rightarrow> state \<Rightarrow> bool" where
  "at_most_one S s =
     list_all (\<lambda>x. length (txns_in S (user_id x) (tier_id x) s) \<le> 1) (txns s)"

text \<open>No transaction row carries a stored redirect URL.\<close>

definition no_pay_url :: "state \<Rightarrow> bool" where
  "no_pay_url s = list_all (\<lambda>x. orange_money_pay_url x = None) (txns s)"

text \<open>A user on the free tier has no expiry.\<close>

definition free_null :: "state \<Rightarrow> bool" where
  "free_null s =
     list_all (\<lambda>u. case joined_tier s (current_tier_id u) of
                      None \<Rightarrow> True
                    | Some tr \<Rightarrow> t_name tr \<noteq> ''free'' \<or> subscription_expires_at u = None)
       (users s)"

text \<open>
  The catalogue as the data model has it: tier ids are unique, and a tier named free costs
  nothing.
\<close>

definition catalogue_ok :: "state \<Rightarrow> bool" where
  "catalogue_ok s =
     (distinct (map t_id (tiers s))
      \<and> list_all (\<lambda>tr. t_name tr \<noteq> ''free'' \<or> price_pula tr = 0) (tiers s))"

text \<open>No transaction is for a free tier.\<close>

definition paid_txns :: "state \<Rightarrow> bool" where
  "paid_txns s =
     list_all (\<lambda>x. list_all (\<lambda>tr. t_id tr \<noteq> tier_id x \<or> t_name tr \<noteq> ''free'') (tiers s))
       (txns s)"

definition ledger_inv :: "state \<Rightarrow> bool" where
  "ledger_inv s = (catalogue_ok s \<and> paid_txns s \<and> free_null s)"

section \<open>What a request may do to the tables\<close>

text \<open>
  The ways the handlers change the tables, for the proofs of the invariants. A transaction
  is updated by a function that keeps its user, tier and redirect URL column and never
  sets the status \<^verbatim>\<open>pending\<close>; a transaction is created pending, without a redirect URL
  column, for a tier with a price, when the user has no pending one for that tier; a user
  row gets a tier and an expiry, where the expiry is null or the tier is that of a
  transaction.
\<close>

definition kept :: "(txn_row \<Rightarrow> txn_row) \<Rightarrow> bool" where
  "kept f = (\<forall>x. user_id (f x) = user_id x \<and> tier_id (f x) = tier_id x
                \<and> orange_money_pay_url (f x) = orange_money_pay_url x
                \<and> status (f x) \<noteq> ''pending'')"

definition created :: "state \<Rightarrow> txn_row \<Rightarrow> bool" where
  "created s row =
     (status row = ''pending'' \<and> orange_money_pay_url row = None
      \<and> txns_in {''pending''} (user_id row) (tier_id row) s = []
      \<and> (\<exists>tr \<in> set (tiers s). tier_id row = t_id tr \<and> price_pula tr \<noteq> 0))"

definition txn_ok :: "state \<Rightarrow> state \<Rightarrow> bool" where
  "txn_ok s s' =
     (txns s' = txns s
      \<or> (\<exists>i f. kept f \<and> txns s' = map (\<lambda>x. if txn_id x = i then f x else x) (txns s))
      \<or> (\<exists>row. created s row \<and> txns s' = txns s @ [row]))"

definition user_ok :: "state \<Rightarrow> state \<Rightarrow> bool" where
  "user_ok s s' =
     (users s' = users s
      \<or> (\<exists>uid k ex. (ex = None \<or> k \<in> tier_id ` set (txns s))
            \<and> users s' = map (\<lambda>u. if u_id u = uid
                                   then u\<lparr>current_tier_id := k, subscription_expires_at := ex\<rparr>
                                   else u) (users s)))"

definition effect :: "state \<Rightarrow> state \<Rightarrow> bool" where
  "effect s s' = (tiers s' = tiers s \<and> txn_ok s s' \<and> user_ok s s')"

section \<open>Example data\<close>

definition ex_tiers :: "tier_row list" where
  "ex_tiers =
     [\<lparr>t_id = ''t0'', t_name = ''free'', price_pula = 0, listing_limit = Some 1\<rparr>,
      \<lparr>t_id = ''t1'', t_name = ''basic'', price_pula = 50, listing_limit = Some 3\<rparr>]"

definition ex_user :: "timestamp option \<Rightarrow> user_row" where
  "ex_user e = \<lparr>u_id = ''u1'', current_tier_id = ''t1'', subscription_expires_at = e\<rparr>"

definition ex_state :: "timestamp option \<Rightarrow> state" where
  "ex_state e = \<lparr>tiers = ex_tiers, users = [ex_user e], txns = [], writes = 0,
                 access_token = None, token_expires_at = None\<rparr>"

definition ex_env :: env where
  "ex_env =
     \<lparr>clock = 200, today = ''20240105'', uuid4 = ''0a1b2c3d-1111-4222-8333-444455556666'',
      whatsapp_number = ''26777625997'',
      str_upper = ascii_upper, str_lower = ascii_lower,
      token_reply = Response (''tok'', Some 3600),
      initiate_reply = Response \<lparr>om_payment_url = Some ''https://pay.example/1'',
                                 om_pay_token = Some ''ptk''\<rparr>,
      status_reply = Response (Some ''SUCCESS'')\<rparr>"

definition ex_txn :: "string \<Rightarrow> txn_row" where
  "ex_txn st =
     \<lparr>txn_id = ''x1'', user_id = ''u1'', tier_id = ''t1'', amount_pula = 50,
      payment_method = ''orange_money'', transaction_reference = ''PD-20240101-AAAA0001'',
      status = st, orange_money_order_id = Some ''PD-20240101-AAAA0001'',
      orange_money_pay_token = Some ''ptk'', orange_money_pay_url = None,
      orange_money_status = None, orange_money_transaction_id = None,
      user_payment_reference = None, admin_notes = None, completed_at = None\<rparr>"

definition ex_pay :: "string \<Rightarrow> state" where
  "ex_pay st = (ex_state None)\<lparr>txns := [ex_txn st]\<rparr>"

definition ex_cb :: "string \<Rightarrow> py_float \<Rightarrow> OrangeMoneyCallback" where
  "ex_cb st amount =
     \<lparr>cb_order_id = ''PD-20240101-AAAA0001'', cb_status = st, cb_transaction_id = ''MP240101.1'',
      cb_amount = amount, cb_currency = ''BWP''\<rparr>"

definition ex_env_down :: env where
  "ex_env_down = ex_env\<lparr>token_reply := RequestException\<rparr>"

definition ex_env2 :: env where
  "ex_env2 = ex_env\<lparr>uuid4 := ''9f8e7d6c-5555-4666-8777-888899990000''\<rparr>"

definition ex_sub :: "string \<Rightarrow> InitiateSubscription" where
  "ex_sub pm = \<lparr>sub_tier = BASIC, sub_payment_method = pm\<rparr>"

definition ex_requests :: "(env \<times> request) list" where
  "ex_requests =
     [(ex_env, Initiate ''u1'' (ex_sub ''manual'')),
      (ex_env, Confirm ''u1'' \<lparr>conf_transaction_id = ''0a1b2c3d-1111-4222-8333-444455556666'',
                               conf_payment_reference = ''MP240105.1234''\<rparr>),
      (ex_env2, Initiate ''u1'' (ex_sub ''manual''))]"

definition ex_basic :: tier_row where
  "ex_basic = \<lparr>t_id = ''t1'', t_name = ''basic'', price_pula = 50, listing_limit = Some 3\<rparr>"

definition ex_env_late :: env where
  "ex_env_late = ex_env\<lparr>clock := 40 * 86400000000\<rparr>"

section \<open>Properties of the query client\<close>

lemmas ex_defs =
  ex_pay_def ex_state_def ex_txn_def ex_cb_def ex_env_def ex_user_def ex_tiers_def ex_env_down_def

lemma filter_update_same:
  assumes "\<And>u. u_id (f u) = u_id u"
  shows "filter (\<lambda>u. u_id u = uid) (map (\<lambda>u. if u_id u = uid then f u else u) xs)
         = map f (filter (\<lambda>u. u_id u = uid) xs)"
  using assms by (induction xs) auto

lemma single_map:
  "single (map f xs) =
     (case single xs of Inl e \<Rightarrow> Inl e | Inr None \<Rightarrow> Inr None | Inr (Some x) \<Rightarrow> Inr (Some (f x)))"
  by (cases xs rule: single.cases) auto

section \<open>Renewal stacking\<close>

lemmas datetime_defs =
  fromisoformat_def in_datetime_def datetime_min_def datetime_max_def datetime_add_def
  timedelta_days_def timedelta_seconds_def day_def

lemma new_expires_in_range:
  assumes "\<forall>E. current = Some E \<longrightarrow> in_datetime E"
    and "\<bar>d\<bar> \<le> 999999999"
    and "in_datetime ((case current of Some E \<Rightarrow> if now < E then E else now | None \<Rightarrow> now)
                      + d * 86400000000)"
  shows "new_expires now current d =
           Inr ((case current of Some E \<Rightarrow> if now < E then E else now | None \<Rightarrow> now)
                + d * 86400000000)"
  using assms
  by (auto simp: new_expires_def fromisoformat_def datetime_add_def timedelta_days_def day_def
        split: option.splits if_splits)

lemma activate_ok:
  assumes "single (filter (\<lambda>u. u_id u = uid) (users s)) = Inr (Some u)"
    and "new_expires now (subscription_expires_at u) d = Inr x"
  shows "activate_subscription now uid tid d s =
           (Inr (), update_users uid
                      (\<lambda>u. u\<lparr>current_tier_id := tid, subscription_expires_at := Some x\<rparr>) s)"
  using assms by (simp add: activate_subscription_def)

text \<open>
  Claim C3, as the code has it. For a user the store holds, with a stored expiry that is a
  \<^verbatim>\<open>datetime\<close>, and a duration \<open>D\<close> of at most 999999999 days either way for which the
  new expiry is again a \<^verbatim>\<open>datetime\<close> (years 1 to 9999), \<^verbatim>\<open>activate_subscription\<close>
  returns normally and leaves the user on the purchased tier with the new expiry: the
  current expiry \<open>E\<close> plus \<open>D\<close> when \<open>E\<close> is strictly after now, and now plus \<open>D\<close> when
  the current expiry is null or not after now.
\<close>

theorem activate_stacking:
  assumes "single (filter (\<lambda>u. u_id u = uid) (users s)) = Inr (Some u)"
    and "\<forall>E. subscription_expires_at u = Some E \<longrightarrow> in_datetime E"
    and "\<bar>d\<bar> \<le> 999999999"
    and "in_datetime ((case subscription_expires_at u of
                         Some E \<Rightarrow> if now < E then E else now | None \<Rightarrow> now)
                      + d * 86400000000)"
  shows "\<exists>s' u'. activate_subscription now uid tid d s = (Inr (), s')
           \<and> single (filter (\<lambda>u. u_id u = uid) (users s')) = Inr (Some u')
           \<and> current_tier_id u' = tid
           \<and> (case subscription_expires_at u of
                 None \<Rightarrow> subscription_expires_at u' = Some (now + d * 86400000000)
               | Some E \<Rightarrow>
                   (now < E \<longrightarrow> subscription_expires_at u' = Some (E + d * 86400000000))
                   \<and> (E \<le> now \<longrightarrow> subscription_expires_at u' = Some (now + d * 86400000000)))"
proof -
  let ?x = "(case subscription_expires_at u of
               Some E \<Rightarrow> if now < E then E else now | None \<Rightarrow> now) + d * 86400000000"
  have "new_expires now (subscription_expires_at u) d = Inr ?x"
    using assms(2,3,4) by (rule new_expires_in_range)
  with assms(1) have "activate_subscription now uid tid d s =
           (Inr (), update_users uid
                      (\<lambda>u. u\<lparr>current_tier_id := tid, subscription_expires_at := Some ?x\<rparr>) s)"
    by (rule activate_ok)
  moreover have "single (filter (\<lambda>u. u_id u = uid)
                    (users (update_users uid
                      (\<lambda>u. u\<lparr>current_tier_id := tid, subscription_expires_at := Some ?x\<rparr>) s)))
                 = Inr (Some (u\<lparr>current_tier_id := tid, subscription_expires_at := Some ?x\<rparr>))"
    using assms(1) by (simp add: update_users_def filter_update_same single_map)
  ultimately show ?thesis
    by (auto split: option.splits)
qed

theorem activate_stacking_witness:
  "single (filter (\<lambda>u. u_id u = ''u1'') (users (ex_state (Some 500)))) = Inr (Some (ex_user (Some 500)))
   \<and> in_datetime 500 \<and> \<bar>30 :: int\<bar> \<le> 999999999 \<and> in_datetime (500 + 30 * 86400000000)
   \<and> (\<exists>s' u'. activate_subscription 200 ''u1'' ''t1'' 30 (ex_state (Some 500)) = (Inr (), s')
           \<and> single (filter (\<lambda>u. u_id u = ''u1'') (users s')) = Inr (Some u')
           \<and> current_tier_id u' = ''t1''
           \<and> subscription_expires_at u' = Some (500 + 30 * 86400000000))"
proof -
  have h1: "single (filter (\<lambda>u. u_id u = ''u1'') (users (ex_state (Some 500))))
             = Inr (Some (ex_user (Some 500)))"
    by (simp add: ex_state_def ex_user_def)
  have r: "in_datetime 500" "in_datetime (500 + 30 * 86400000000)"
    by (simp_all add: in_datetime_def datetime_min_def datetime_max_def)
  have h2: "\<forall>E. subscription_expires_at (ex_user (Some 500)) = Some E \<longrightarrow> in_datetime E"
    using r by (simp add: ex_user_def)
  have h3: "\<bar>30 :: int\<bar> \<le> 999999999" by simp
  have h4: "in_datetime ((case subscription_expires_at (ex_user (Some 500)) of
                         Some E \<Rightarrow> if 200 < E then E else 200 | None \<Rightarrow> 200)
                      + 30 * 86400000000)"
    using r by (simp add: ex_user_def)
  show ?thesis
    using h1 r h3 activate_stacking [OF h1 h2 h3 h4, of "''t1''"]
    by (simp add: ex_user_def)
qed

text \<open>
  The claim as it is written, for every duration, fails: 3000000 days after the expiry 500
  is past the year 9999, the addition raises \<^verbatim>\<open>OverflowError\<close> before the update, and
  the user keeps the tier and the expiry.
\<close>

theorem activate_overflows:
  "activate_subscription 200 ''u1'' ''t1'' 3000000 (ex_state (Some 500))
     = (Inl OverflowError, ex_state (Some 500))"
  by (simp add: activate_subscription_def new_expires_def datetime_defs ex_state_def ex_user_def)

lemma find_distinct:
  "distinct (map t_id ts) \<Longrightarrow> t \<in> set ts \<Longrightarrow> find (\<lambda>x. t_id x = t_id t) ts = Some t"
  by (induction ts) (auto simp: rev_image_eqI)

lemma single_Some: "single xs = Inr (Some x) \<longleftrightarrow> xs = [x]"
  by (cases xs rule: single.cases) auto

lemma single_filter_mem: "single (filter P xs) = Inr (Some x) \<Longrightarrow> x \<in> set xs \<and> P x"
proof -
  assume "single (filter P xs) = Inr (Some x)"
  then have "filter P xs = [x]" by (simp add: single_Some)
  then have "x \<in> set (filter P xs)" by simp
  then show ?thesis by simp
qed

section \<open>Expiry enforcement twice\<close>

lemma enforce_error:
  "check_and_enforce_subscription now uid s = (Inl e, s') \<Longrightarrow> s' = s"
  by (auto simp: check_and_enforce_subscription_def split: sum.splits option.splits if_splits)

lemma enforce_no_downgrade:
  "check_and_enforce_subscription now uid s = (Inr a, s') \<Longrightarrow> \<not> was_downgraded a \<Longrightarrow>
     s' = s \<and> previous_tier a = None"
  by (auto simp: check_and_enforce_subscription_def split: sum.splits option.splits if_splits)

lemma enforce_downgradeD:
  assumes "check_and_enforce_subscription now uid s = (Inr a, s')" and "was_downgraded a"
  shows "\<exists>u ft p. single (filter (\<lambda>u. u_id u = uid) (users s)) = Inr (Some u)
           \<and> single (filter (\<lambda>t. t_name t = ''free'') (tiers s)) = Inr (Some ft)
           \<and> a = \<lparr>tier = ft, is_active = True, expires_at = None,
                   was_downgraded = True, previous_tier = p\<rparr>
           \<and> s' = update_users uid
                     (\<lambda>u. u\<lparr>current_tier_id := t_id ft, subscription_expires_at := None\<rparr>) s"
  using assms
  by (auto simp: check_and_enforce_subscription_def split: sum.splits option.splits if_splits)

lemma enforce_free:
  assumes "single (filter (\<lambda>u. u_id u = uid) (users s)) = Inr (Some u)"
    and "joined_tier s (current_tier_id u) = Some ft" and "t_name ft = ''free''"
  shows "check_and_enforce_subscription now uid s =
           (Inr \<lparr>tier = ft, is_active = True, expires_at = None,
                 was_downgraded = False, previous_tier = None\<rparr>, s)"
  using assms by (simp add: check_and_enforce_subscription_def)

lemma enforce_after_downgrade:
  assumes d: "distinct (map t_id (tiers s))"
    and c: "check_and_enforce_subscription now uid s = (Inr a, s')" and w: "was_downgraded a"
  shows "writes s' = Suc (writes s) \<and>
         check_and_enforce_subscription now uid s' =
           (Inr (a\<lparr>was_downgraded := False, previous_tier := None\<rparr>), s')"
proof -
  from enforce_downgradeD [OF c w] obtain u ft p where
    u: "single (filter (\<lambda>u. u_id u = uid) (users s)) = Inr (Some u)" and
    ft: "single (filter (\<lambda>t. t_name t = ''free'') (tiers s)) = Inr (Some ft)" and
    a: "a = \<lparr>tier = ft, is_active = True, expires_at = None,
              was_downgraded = True, previous_tier = p\<rparr>" and
    s': "s' = update_users uid
                (\<lambda>u. u\<lparr>current_tier_id := t_id ft, subscription_expires_at := None\<rparr>) s"
    by blast
  from ft have mem: "ft \<in> set (tiers s)" and free: "t_name ft = ''free''"
    by (auto dest: single_filter_mem)
  have u': "single (filter (\<lambda>u. u_id u = uid) (users s')) =
              Inr (Some (u\<lparr>current_tier_id := t_id ft, subscription_expires_at := None\<rparr>))"
    using u by (simp add: s' update_users_def filter_update_same single_map)
  have j: "joined_tier s' (t_id ft) = Some ft"
    using d mem by (simp add: s' update_users_def joined_tier_def find_distinct)
  have "check_and_enforce_subscription now uid s' =
          (Inr \<lparr>tier = ft, is_active = True, expires_at = None,
                was_downgraded = False, previous_tier = None\<rparr>, s')"
    by (rule enforce_free [OF u' _ free]) (simp add: j)
  then show ?thesis by (simp add: a s' update_users_def)
qed

text \<open>
  Claim C4, as the code has it. Where the tier ids are unique (the table's primary key),
  a second call at the same clock reading executes no write and leaves the state as the
  first call left it, the two calls together execute at most one write, and the second
  result is the first with \<open>was_downgraded\<close> false and no \<open>previous_tier\<close>: the same
  tier, active flag and expiry, and the same exception if the first call raised. The
  downgrade flag is reported by the call that downgrades, and only by it.
\<close>

theorem check_and_enforce_idempotent:
  assumes "distinct (map t_id (tiers s))"
  shows "case check_and_enforce_subscription now uid s of (r1, s1) \<Rightarrow>
           (case check_and_enforce_subscription now uid s1 of (r2, s2) \<Rightarrow>
              s2 = s1 \<and> writes s2 \<le> Suc (writes s) \<and>
              (case r1 of Inl e \<Rightarrow> r2 = Inl e
               | Inr a \<Rightarrow> r2 = Inr (a\<lparr>was_downgraded := False, previous_tier := None\<rparr>)))"
proof -
  obtain r1 s1 where c1: "check_and_enforce_subscription now uid s = (r1, s1)"
    by (cases "check_and_enforce_subscription now uid s") auto
  show ?thesis
  proof (cases r1)
    case (Inl e)
    with c1 have "s1 = s" by (auto dest: enforce_error)
    with c1 Inl show ?thesis by simp
  next
    case (Inr a)
    show ?thesis
    proof (cases "was_downgraded a")
      case True
      with assms c1 Inr show ?thesis
        by (auto dest: enforce_after_downgrade)
    next
      case False
      with c1 Inr have "s1 = s" "previous_tier a = None"
        by (auto dest: enforce_no_downgrade)
      with c1 Inr False show ?thesis by simp
    qed
  qed
qed

theorem check_and_enforce_idempotent_witness:
  "distinct (map t_id (tiers (ex_state (Some 100)))) \<and>
   (case check_and_enforce_subscription 200 ''u1'' (ex_state (Some 100)) of (r1, s1) \<Rightarrow>
           (case check_and_enforce_subscription 200 ''u1'' s1 of (r2, s2) \<Rightarrow>
              s2 = s1 \<and> writes s2 \<le> Suc (writes (ex_state (Some 100))) \<and>
              (case r1 of Inl e \<Rightarrow> r2 = Inl e
               | Inr a \<Rightarrow> r2 = Inr (a\<lparr>was_downgraded := False, previous_tier := None\<rparr>))))"
proof -
  have h: "distinct (map t_id (tiers (ex_state (Some 100))))"
    by (simp add: ex_state_def ex_tiers_def)
  show ?thesis
    using h check_and_enforce_idempotent [OF h, of 200 "''u1''"] by simp
qed

text \<open>
  The claim as it is written fails: for a user on the basic tier whose subscription ran
  out at 100, the call at 200 downgrades and reports it, the next call at 200 finds a
  free-tier user and reports no downgrade, so the two results differ.
\<close>

theorem check_and_enforce_results_differ:
  "fst (check_and_enforce_subscription 200 ''u1'' (ex_state (Some 100)))
     \<noteq> fst (check_and_enforce_subscription 200 ''u1''
            (snd (check_and_enforce_subscription 200 ''u1'' (ex_state (Some 100)))))"
  by (simp add: check_and_enforce_subscription_def ex_state_def ex_user_def ex_tiers_def
        joined_tier_def update_users_def fromisoformat_def in_datetime_def datetime_min_def
        datetime_max_def)

section \<open>The webhook\<close>

lemma filter_map_pres:
  "(\<And>x. P (g x) = P x) \<Longrightarrow> filter P (map g xs) = map g (filter P xs)"
  by (induction xs) auto

lemma order_lookup_update:
  assumes "\<And>x. orange_money_order_id (f x) = orange_money_order_id x"
  shows "filter (\<lambda>x. orange_money_order_id x = Some oid) (txns (update_txns i f s))
         = map (\<lambda>x. if txn_id x = i then f x else x)
             (filter (\<lambda>x. orange_money_order_id x = Some oid) (txns s))"
  using assms by (simp add: update_txns_def filter_map_pres)









text \<open>
  Claim C2. A callback for a transaction that is not in a terminal status, with an amount
  that differs from the recorded \<^verbatim>\<open>amount_pula\<close>, is answered \<^verbatim>\<open>amount_mismatch\<close>;
  the transaction is then failed with the tag \<^verbatim>\<open>AMOUNT_MISMATCH\<close>, and the users table is
  untouched, whatever the status field of the callback says.
\<close>

theorem webhook_amount_mismatch:
  assumes "single (filter (\<lambda>x. orange_money_order_id x = Some (cb_order_id cb)) (txns s)) = Inr (Some t)"
    and "status t \<notin> {''completed'', ''failed'', ''refunded''}"
    and "float_ne_int (cb_amount cb) (amount_pula t)"
  shows "\<exists>s'. orange_money_webhook e cb s = (Inr ''amount_mismatch'', s')
           \<and> users s' = users s
           \<and> single (filter (\<lambda>x. orange_money_order_id x = Some (cb_order_id cb)) (txns s'))
               = Inr (Some (t\<lparr>status := ''failed'', orange_money_status := Some ''AMOUNT_MISMATCH''\<rparr>))"
  using assms
  by (simp add: orange_money_webhook_def order_lookup_update single_map)
     (simp add: update_txns_def)

theorem webhook_amount_mismatch_witness:
  "single (filter (\<lambda>x. orange_money_order_id x = Some (cb_order_id (ex_cb ''SUCCESS'' (Finite (99 / 2)))))
      (txns (ex_pay ''pending''))) = Inr (Some (ex_txn ''pending''))
   \<and> status (ex_txn ''pending'') \<notin> {''completed'', ''failed'', ''refunded''}
   \<and> float_ne_int (cb_amount (ex_cb ''SUCCESS'' (Finite (99 / 2)))) (amount_pula (ex_txn ''pending''))
   \<and> (\<exists>s'. orange_money_webhook ex_env (ex_cb ''SUCCESS'' (Finite (99 / 2))) (ex_pay ''pending'')
              = (Inr ''amount_mismatch'', s')
           \<and> users s' = users (ex_pay ''pending'')
           \<and> single (filter (\<lambda>x. orange_money_order_id x
                        = Some (cb_order_id (ex_cb ''SUCCESS'' (Finite (99 / 2))))) (txns s'))
               = Inr (Some ((ex_txn ''pending'')\<lparr>status := ''failed'',
                       orange_money_status := Some ''AMOUNT_MISMATCH''\<rparr>)))"
proof -
  have h1: "single (filter (\<lambda>x. orange_money_order_id x = Some (cb_order_id (ex_cb ''SUCCESS'' (Finite (99 / 2)))))
      (txns (ex_pay ''pending''))) = Inr (Some (ex_txn ''pending''))"
    by (simp add: ex_defs)
  have h2: "status (ex_txn ''pending'') \<notin> {''completed'', ''failed'', ''refunded''}"
    by (simp add: ex_defs)
  have h3: "float_ne_int (cb_amount (ex_cb ''SUCCESS'' (Finite (99 / 2)))) (amount_pula (ex_txn ''pending''))"
    by (simp add: ex_defs)
  from webhook_amount_mismatch [OF h1 h2 h3, of ex_env] h1 h2 h3 show ?thesis by blast
qed

section \<open>Admin override\<close>

text \<open>
  With no pending or awaiting row of that id the query of both handlers has no row, and
  the client raises before the handler reaches its own test: nothing is written.
\<close>

lemma admin_override_no_row:
  assumes "\<forall>x \<in> set (txns s). txn_id x = adm_transaction_id a
             \<longrightarrow> status x \<notin> {''pending'', ''awaiting_verification''}"
  shows "admin_approve_payment e a s = (Inl APIError, s)
         \<and> admin_reject_payment a s = (Inl APIError, s)"
proof -
  have "filter (\<lambda>x. txn_id x = adm_transaction_id a \<and> status x \<in> {''pending'', ''awaiting_verification''})
          (txns s) = []"
    using assms by (auto simp: filter_empty_conv)
  then have "pending_txn (adm_transaction_id a) s = Inl APIError"
    by (simp add: pending_txn_def)
  then show ?thesis
    by (simp add: admin_approve_payment_def admin_reject_payment_def)
qed

text \<open>
  Claim C8, at the input where the code leaves it. The transaction \<^verbatim>\<open>x1\<close> is completed.
  Approval and rejection select it with the status filter through
  \<^verbatim>\<open>.single().execute()\<close>, which raises \<^verbatim>\<open>APIError\<close> on the empty selection, so the
  \<^verbatim>\<open>if not result.data\<close> that would raise the 404 is not reached. The transaction is
  unchanged.
\<close>

theorem admin_override_raises_api_error:
  "admin_approve_payment ex_env \<lparr>adm_transaction_id = ''x1'', adm_admin_notes = None\<rparr>
       (ex_pay ''completed'') = (Inl APIError, ex_pay ''completed'')
   \<and> admin_reject_payment \<lparr>adm_transaction_id = ''x1'', adm_admin_notes = None\<rparr>
       (ex_pay ''completed'') = (Inl APIError, ex_pay ''completed'')"
  by (simp add: admin_approve_payment_def admin_reject_payment_def pending_txn_def
        ex_pay_def ex_state_def ex_txn_def)

section \<open>The gateway client in initiation and in the status inquiry\<close>

lemma get_access_token_error:
  "get_access_token e s = (Inl err, s') \<Longrightarrow> err = HTTPException 502"
  by (auto simp: get_access_token_def request_token_def
        split: option.splits if_splits http.splits prod.splits sum.splits)

lemma initiate_payment_error:
  "initiate_payment e oid a s = (Inl err, s') \<Longrightarrow> err = HTTPException 502"
  by (auto simp: initiate_payment_def split: prod.splits sum.splits http.splits
        dest: get_access_token_error)

text \<open>
  Claim C7. When the tier is payable, no pending transaction of the user for it exists,
  the method is \<^verbatim>\<open>orange_money\<close> and the gateway client raises, initiation still answers:
  no redirect URL, status \<^verbatim>\<open>pending\<close>, the message that names the amount and the
  generated reference, and the transaction inserted with the method \<^verbatim>\<open>manual\<close>.
\<close>

theorem initiate_fail_open:
  assumes "single (filter (\<lambda>t. t_name t = tier_value (sub_tier sub)) (tiers s)) = Inr (Some tr)"
    and "price_pula tr \<noteq> 0"
    and "txns_in {''pending''} uid (t_id tr) s = []"
    and "sub_payment_method sub = ''orange_money''"
    and "initiate_payment e (txn_ref e) (price_pula tr) s = (Inl err, s')"
  shows "initiate_subscription e uid sub s =
           (Inr \<lparr>init_payment_url = None, init_transaction_id = uuid4 e,
                 init_status = ''pending'',
                 init_message =
                   ''Orange Money is temporarily unavailable. Please send P'' @
                   str_int (price_pula tr) @ '' via Orange Money to '' @ whatsapp_number e @
                   '' with reference: '' @ txn_ref e @ '', then confirm your payment.''\<rparr>,
            s'\<lparr>txns := txns s' @
                   [(txn_data e uid tr ''orange_money'')\<lparr>payment_method := ''manual''\<rparr>],
               writes := Suc (writes s')\<rparr>)"
proof -
  from assms(5) have "err = HTTPException 502" by (rule initiate_payment_error)
  with assms show ?thesis
    by (simp add: initiate_subscription_def txns_in_def inserted_def insert_txn_def
          unavailable_message_def)
qed

theorem initiate_fail_open_witness:
  "initiate_payment ex_env_down (txn_ref ex_env_down) 50 (ex_state None)
     = (Inl (HTTPException 502), ex_state None)
   \<and> initiate_subscription ex_env_down ''u1''
        \<lparr>sub_tier = BASIC, sub_payment_method = ''orange_money''\<rparr> (ex_state None) =
           (Inr \<lparr>init_payment_url = None,
                 init_transaction_id = ''0a1b2c3d-1111-4222-8333-444455556666'',
                 init_status = ''pending'',
                 init_message =
                   ''Orange Money is temporarily unavailable. Please send P50 via Orange Money to 26777625997 with reference: PD-20240105-0A1B2C3D, then confirm your payment.''\<rparr>,
            (ex_state None)\<lparr>txns :=
                   [(txn_data ex_env_down ''u1'' (ex_tiers ! 1) ''orange_money'')\<lparr>payment_method := ''manual''\<rparr>],
               writes := 1\<rparr>)"
proof -
  let ?sub = "\<lparr>sub_tier = BASIC, sub_payment_method = ''orange_money''\<rparr>"
  have h1: "single (filter (\<lambda>t. t_name t = tier_value (sub_tier ?sub)) (tiers (ex_state None)))
              = Inr (Some (ex_tiers ! 1))"
    by (simp add: ex_defs)
  have h2: "price_pula (ex_tiers ! 1) \<noteq> 0" by (simp add: ex_defs)
  have h3: "txns_in {''pending''} ''u1'' (t_id (ex_tiers ! 1)) (ex_state None) = []"
    by (simp add: ex_defs txns_in_def)
  have h4: "sub_payment_method ?sub = ''orange_money''" by simp
  have p: "price_pula (ex_tiers ! 1) = 50" by (simp add: ex_defs)
  have h5: "initiate_payment ex_env_down (txn_ref ex_env_down) (price_pula (ex_tiers ! 1)) (ex_state None)
     = (Inl (HTTPException 502), ex_state None)"
    by (simp add: initiate_payment_def get_access_token_def request_token_def ex_defs)
  have m: "str_int 50 = ''50''" by (simp add: str_int_def)
  have r: "txn_ref ex_env_down = ''PD-20240105-0A1B2C3D''"
    by (simp add: txn_ref_def ex_defs ascii_upper_def upper_char_def)
  have w: "whatsapp_number ex_env_down = ''26777625997''" "uuid4 ex_env_down = ''0a1b2c3d-1111-4222-8333-444455556666''"
    by (simp_all add: ex_defs)
  have e: "txns (ex_state None) = []" "writes (ex_state None) = 0" by (simp_all add: ex_defs)
  from initiate_fail_open [OF h1 h2 h3 h4 h5] h5 show ?thesis
    unfolding p m r w by (simp add: e r)
qed

text \<open>
  Claim C6, at the input where the code leaves it. The client holds no token and the token
  request fails: \<^verbatim>\<open>check_transaction_status\<close> fetches the token before its \<^verbatim>\<open>try\<close>, so
  the \<^verbatim>\<open>HTTPException(502)\<close> of \<^verbatim>\<open>_get_access_token\<close> leaves it and the status inquiry,
  which does not catch it. The stored state is unchanged.
\<close>

theorem poll_raises_on_token_failure:
  "check_transaction_status ex_env_down ''PD-20240101-AAAA0001'' 50 (ex_pay ''pending'')
     = (Inl (HTTPException 502), ex_pay ''pending'')
   \<and> check_payment_status ex_env_down ''x1'' ''u1'' (ex_pay ''pending'')
     = (Inl (HTTPException 502), ex_pay ''pending'')"
  by (simp add: check_payment_status_def check_transaction_status_def get_access_token_def
        request_token_def txn_tier_name_def joined_tier_def om_order_id_def ex_defs)

section \<open>The effect of the handlers on the tables\<close>

lemma txn_ok_same: "txns s' = txns s \<Longrightarrow> txn_ok s s'"
  by (simp add: txn_ok_def)

lemma txn_ok_update:
  "kept f \<Longrightarrow> txns s' = map (\<lambda>x. if txn_id x = i then f x else x) (txns s) \<Longrightarrow> txn_ok s s'"
  unfolding txn_ok_def by blast

lemma txn_ok_insert: "created s row \<Longrightarrow> txns s' = txns s @ [row] \<Longrightarrow> txn_ok s s'"
  unfolding txn_ok_def by blast

lemma user_ok_same: "users s' = users s \<Longrightarrow> user_ok s s'"
  by (simp add: user_ok_def)

lemma user_ok_update:
  "ex = None \<or> k \<in> tier_id ` set (txns s) \<Longrightarrow>
   users s' = map (\<lambda>u. if u_id u = uid
                        then u\<lparr>current_tier_id := k, subscription_expires_at := ex\<rparr>
                        else u) (users s) \<Longrightarrow> user_ok s s'"
  unfolding user_ok_def by blast

lemma effectI: "tiers s' = tiers s \<Longrightarrow> txn_ok s s' \<Longrightarrow> user_ok s s' \<Longrightarrow> effect s s'"
  by (simp add: effect_def)

lemma effect_refl: "effect s s"
  by (simp add: effectI txn_ok_same user_ok_same)

lemma effect_token:
  "tiers s' = tiers s \<Longrightarrow> txns s' = txns s \<Longrightarrow> users s' = users s \<Longrightarrow> effect s s'"
  by (simp add: effectI txn_ok_same user_ok_same)

lemma effect_update_txns:
  assumes "kept f" and "tiers s = tiers s0" "txns s = txns s0" "users s = users s0"
  shows "effect s0 (update_txns i f s)"
proof (rule effectI)
  show "txn_ok s0 (update_txns i f s)"
    by (rule txn_ok_update [OF assms(1), where i = i]) (simp add: update_txns_def assms)
qed (simp_all add: update_txns_def assms user_ok_same)

lemma effect_update_users:
  assumes "ex = None \<or> k \<in> tier_id ` set (txns s)"
  shows "effect s (update_users uid
                     (\<lambda>u. u\<lparr>current_tier_id := k, subscription_expires_at := ex\<rparr>) s)"
proof (rule effectI)
  show "user_ok s (update_users uid
                     (\<lambda>u. u\<lparr>current_tier_id := k, subscription_expires_at := ex\<rparr>) s)"
    by (rule user_ok_update [OF assms, where uid = uid]) (simp add: update_users_def)
qed (simp_all add: update_users_def txn_ok_same)

lemma get_access_token_tables:
  "get_access_token e s = (r, s') \<Longrightarrow> tiers s' = tiers s \<and> txns s' = txns s \<and> users s' = users s"
  by (auto simp: get_access_token_def request_token_def
        split: option.splits if_splits http.splits prod.splits sum.splits)

lemma initiate_payment_tables:
  "initiate_payment e oid a s = (r, s') \<Longrightarrow> tiers s' = tiers s \<and> txns s' = txns s \<and> users s' = users s"
  by (auto simp: initiate_payment_def split: prod.splits sum.splits http.splits
        dest: get_access_token_tables)

lemma check_transaction_status_tables:
  "check_transaction_status e oid a s = (r, s') \<Longrightarrow> tiers s' = tiers s \<and> txns s' = txns s \<and> users s' = users s"
  by (auto simp: check_transaction_status_def split: prod.splits sum.splits http.splits
        dest: get_access_token_tables)

lemma activate_cases:
  assumes "activate_subscription now uid k d s = (r, s')"
  shows "s' = s \<or> (\<exists>ex. s' = update_users uid
                       (\<lambda>u. u\<lparr>current_tier_id := k, subscription_expires_at := ex\<rparr>) s)"
  using assms by (auto simp: activate_subscription_def split: sum.splits option.splits)

lemma enforce_cases:
  "snd (check_and_enforce_subscription now uid s) = s
   \<or> (\<exists>k. snd (check_and_enforce_subscription now uid s) =
            update_users uid (\<lambda>u. u\<lparr>current_tier_id := k, subscription_expires_at := None\<rparr>) s)"
  by (auto simp: check_and_enforce_subscription_def split: sum.splits option.splits)

lemma effect_enforce: "effect s (snd (check_and_enforce_subscription now uid s))"
  using enforce_cases [of now uid s] by (auto simp: effect_refl intro: effect_update_users)

text \<open>An update of one transaction followed by the activation for that transaction.\<close>

lemma effect_update_activate:
  assumes k: "kept f" and x: "x \<in> set (txns s0)"
    and t: "tiers s = tiers s0" "txns s = txns s0" "users s = users s0"
    and a: "activate_subscription now uid (tier_id x) d (update_txns i f s) = (r, s')"
  shows "effect s0 s'"
proof -
  from activate_cases [OF a] show ?thesis
  proof
    assume "s' = update_txns i f s"
    with k t show ?thesis by (simp add: effect_update_txns)
  next
    assume "\<exists>ex. s' = update_users uid
                       (\<lambda>u. u\<lparr>current_tier_id := tier_id x, subscription_expires_at := ex\<rparr>)
                       (update_txns i f s)"
    then obtain ex where s': "s' = update_users uid
                       (\<lambda>u. u\<lparr>current_tier_id := tier_id x, subscription_expires_at := ex\<rparr>)
                       (update_txns i f s)" ..
    show ?thesis
    proof (rule effectI)
      show "tiers s' = tiers s0" by (simp add: s' update_users_def update_txns_def t)
      show "txn_ok s0 s'"
        by (rule txn_ok_update [OF k, where i = i]) (simp add: s' update_users_def update_txns_def t)
      show "user_ok s0 s'"
        by (rule user_ok_update [where ex = ex and k = "tier_id x" and uid = uid])
           (use x in \<open>simp_all add: s' update_users_def update_txns_def t\<close>)
    qed
  qed
qed

lemma kept_simps [simp]:
  "kept (\<lambda>x. x\<lparr>user_payment_reference := r, status := ''awaiting_verification''\<rparr>)"
  "kept (\<lambda>x. x\<lparr>status := ''completed'', completed_at := c, orange_money_status := os\<rparr>)"
  "kept (\<lambda>x. x\<lparr>status := ''failed'', orange_money_status := os\<rparr>)"
  "kept (\<lambda>x. x\<lparr>status := ''completed'', completed_at := c, orange_money_status := os,
                 orange_money_transaction_id := ot\<rparr>)"
  "kept (\<lambda>x. with_notes a (x\<lparr>status := ''completed'', completed_at := c\<rparr>))"
  "kept (\<lambda>x. with_notes a (x\<lparr>status := ''failed''\<rparr>))"
  by (simp_all add: kept_def with_notes_def split: option.splits)

lemma effect_confirm: "effect s (snd (confirm_payment uid c s))"
  by (auto simp: confirm_payment_def Let_def effect_refl effect_update_txns
        split: sum.splits option.splits)

lemma effect_reject: "effect s (snd (admin_reject_payment a s))"
  by (auto simp: admin_reject_payment_def effect_refl effect_update_txns
        split: sum.splits option.splits)

lemma pending_txn_mem: "pending_txn i s = Inr (Some x) \<Longrightarrow> x \<in> set (txns s)"
  unfolding pending_txn_def by (auto dest: single_filter_mem)

lemma effect_approve: "effect s (snd (admin_approve_payment e a s))"
proof (cases "pending_txn (adm_transaction_id a) s")
  case (Inl err)
  then show ?thesis by (simp add: admin_approve_payment_def effect_refl)
next
  case (Inr o1)
  show ?thesis
  proof (cases o1)
    case None
    with Inr show ?thesis by (simp add: admin_approve_payment_def effect_refl)
  next
    case (Some x)
    with Inr have x: "x \<in> set (txns s)" by (auto dest: pending_txn_mem)
    show ?thesis
    proof (cases "txn_tier_name s x")
      case (Inl err)
      with Inr Some show ?thesis by (simp add: admin_approve_payment_def effect_refl)
    next
      case n: (Inr name)
      obtain r s' where a: "activate_subscription (clock e) (user_id x) (tier_id x) 30
                       (update_txns (txn_id x)
                          (\<lambda>y. with_notes a
                                  (y\<lparr>status := ''completed'', completed_at := Some (clock e)\<rparr>)) s)
                       = (r, s')"
        by (meson surj_pair)
      have "effect s s'"
        by (rule effect_update_activate [OF _ x _ _ _ a]) simp_all
      with Inr Some n a show ?thesis
        by (simp add: admin_approve_payment_def split: sum.splits)
    qed
  qed
qed

lemma effect_webhook: "effect s (snd (orange_money_webhook e cb s))"
proof (cases "single (filter (\<lambda>x. orange_money_order_id x = Some (cb_order_id cb)) (txns s))")
  case (Inl err)
  then show ?thesis by (simp add: orange_money_webhook_def effect_refl)
next
  case (Inr o1)
  show ?thesis
  proof (cases o1)
    case None
    with Inr show ?thesis by (simp add: orange_money_webhook_def effect_refl)
  next
    case (Some x)
    with Inr have x: "x \<in> set (txns s)" by (auto dest: single_filter_mem)
    obtain r s' where a: "activate_subscription (clock e) (user_id x) (tier_id x) 30
                    (update_txns (txn_id x)
                       (\<lambda>y. y\<lparr>status := ''completed'',
                               completed_at := Some (clock e),
                               orange_money_status := Some (cb_status cb),
                               orange_money_transaction_id := Some (cb_transaction_id cb)\<rparr>) s)
                     = (r, s')"
      by (meson surj_pair)
    have "effect s s'"
      by (rule effect_update_activate [OF _ x _ _ _ a]) simp_all
    with Inr Some a show ?thesis
      by (simp add: orange_money_webhook_def effect_refl effect_update_txns split: sum.splits)
  qed
qed

lemma effect_check_payment: "effect s (snd (check_payment_status e i uid s))"
proof (cases "single (filter (\<lambda>x. txn_id x = i \<and> user_id x = uid) (txns s))")
  case (Inl err)
  then show ?thesis by (simp add: check_payment_status_def effect_refl)
next
  case (Inr o1)
  show ?thesis
  proof (cases o1)
    case None
    with Inr show ?thesis by (simp add: check_payment_status_def effect_refl)
  next
    case (Some x)
    with Inr have x: "x \<in> set (txns s)" by (auto dest: single_filter_mem)
    show ?thesis
    proof (cases "txn_tier_name s x")
      case (Inl err)
      with Inr Some show ?thesis by (simp add: check_payment_status_def effect_refl)
    next
      case n: (Inr name)
      obtain q s1 where c: "check_transaction_status e (om_order_id x) (amount_pula x) s = (q, s1)"
        by (meson surj_pair)
      then have t: "tiers s1 = tiers s" "txns s1 = txns s" "users s1 = users s"
        by (auto dest: check_transaction_status_tables)
      obtain r s' where a: "activate_subscription (clock e) uid (tier_id x) 30
                              (update_txns (txn_id x)
                                 (\<lambda>y. y\<lparr>status := ''completed'',
                                         completed_at := Some (clock e),
                                         orange_money_status := Some ''SUCCESS''\<rparr>) s1)
                            = (r, s')"
        by (meson surj_pair)
      have e1: "effect s s'"
        by (rule effect_update_activate [OF _ x t a]) simp
      have e2: "effect s s1" using t by (rule effect_token)
      have e3: "\<And>os. effect s (update_txns (txn_id x)
                  (\<lambda>y. y\<lparr>status := ''failed'', orange_money_status := os\<rparr>) s1)"
        using t by (simp add: effect_update_txns)
      from Inr Some n c a e1 e2 e3 show ?thesis
        by (simp add: check_payment_status_def Let_def effect_refl split: sum.splits)
    qed
  qed
qed

lemma created_txn_data:
  assumes "tr \<in> set (tiers s)" and "price_pula tr \<noteq> 0"
    and "txns_in {''pending''} uid (t_id tr) s = []"
  shows "created s (txn_data e uid tr pm)"
    and "created s ((txn_data e uid tr pm)\<lparr>payment_method := pm'\<rparr>)"
    and "created s ((txn_data e uid tr pm)\<lparr>orange_money_order_id := oid,
                                            orange_money_pay_token := tok\<rparr>)"
  using assms by (auto simp: created_def txn_data_def)

lemma effect_inserted:
  assumes "created s0 row" and "tiers s = tiers s0" "txns s = txns s0" "users s = users s0"
  shows "effect s0 (snd (inserted e row url msg s))"
proof (rule effectI)
  show "txn_ok s0 (snd (inserted e row url msg s))"
    by (rule txn_ok_insert [OF assms(1)]) (simp add: inserted_def insert_txn_def assms)
qed (simp_all add: inserted_def insert_txn_def assms user_ok_same)

lemma effect_initiate: "effect s (snd (initiate_subscription e uid sub s))"
proof (cases "single (filter (\<lambda>t. t_name t = tier_value (sub_tier sub)) (tiers s))")
  case (Inl err)
  then show ?thesis by (simp add: initiate_subscription_def effect_refl)
next
  case (Inr o1)
  show ?thesis
  proof (cases o1)
    case None
    with Inr show ?thesis by (simp add: initiate_subscription_def effect_refl)
  next
    case (Some tr)
    with Inr have tr: "tr \<in> set (tiers s)" by (auto dest: single_filter_mem)
    show ?thesis
    proof (cases "price_pula tr = 0")
      case True
      with Inr Some show ?thesis by (simp add: initiate_subscription_def effect_refl)
    next
      case price: False
      show ?thesis
      proof (cases "txns_in {''pending''} uid (t_id tr) s")
        case (Cons x xs)
        with Inr Some price show ?thesis
          by (simp add: initiate_subscription_def effect_refl txns_in_def)
      next
        case Nil
        note cr = created_txn_data [OF tr price Nil]
        obtain q s1 where c: "initiate_payment e (txn_ref e) (price_pula tr) s = (q, s1)"
          by (meson surj_pair)
        then have t: "tiers s1 = tiers s" "txns s1 = txns s" "users s1 = users s"
          by (auto dest: initiate_payment_tables)
        have e0: "effect s s1" using t by (rule effect_token)
        have e1: "\<And>row url msg. created s row \<Longrightarrow> effect s (snd (inserted e row url msg s1))"
          using t by (simp add: effect_inserted)
        have e2: "\<And>row url msg. created s row \<Longrightarrow> effect s (snd (inserted e row url msg s))"
          by (simp add: effect_inserted)
        from Inr Some price Nil c e0 show ?thesis
          by (auto simp: initiate_subscription_def txns_in_def
                split: sum.splits error.splits intro!: e1 e2 cr)
      qed
    qed
  qed
qed

lemma effect_handle: "effect s (handle e r s)"
  by (cases r)
     (simp_all add: effect_enforce effect_initiate effect_confirm effect_check_payment
        effect_webhook effect_approve effect_reject)

lemma at_most_one_iff:
  "at_most_one S s \<longleftrightarrow> (\<forall>u k. length (txns_in S u k s) \<le> 1)"
proof
  assume a: "at_most_one S s"
  show "\<forall>u k. length (txns_in S u k s) \<le> 1"
  proof (intro allI)
    fix u k
    show "length (txns_in S u k s) \<le> 1"
    proof (cases "txns_in S u k s")
      case Nil
      then show ?thesis by simp
    next
      case (Cons x xs)
      then have "x \<in> set (txns_in S u k s)" by simp
      then have "x \<in> set (txns s)" "user_id x = u" "tier_id x = k"
        by (auto simp: txns_in_def)
      with a show ?thesis by (auto simp: at_most_one_def list_all_iff)
    qed
  qed
next
  assume "\<forall>u k. length (txns_in S u k s) \<le> 1"
  then show "at_most_one S s" by (simp add: at_most_one_def list_all_iff)
qed

lemma length_filter_map_le:
  "(\<And>x. P (g x) \<Longrightarrow> P x) \<Longrightarrow> length (filter P (map g xs)) \<le> length (filter P xs)"
  by (induction xs) (auto simp: le_SucI)

lemma pending_pres:
  assumes inv: "at_most_one {''pending''} s" and ok: "txn_ok s s'"
  shows "at_most_one {''pending''} s'"
  unfolding at_most_one_iff
proof (intro allI)
  fix u k
  from inv have le: "length (txns_in {''pending''} u k s) \<le> 1"
    by (simp add: at_most_one_iff)
  from ok consider
      (same) "txns s' = txns s"
    | (upd) i f where "kept f" "txns s' = map (\<lambda>x. if txn_id x = i then f x else x) (txns s)"
    | (ins) row where "created s row" "txns s' = txns s @ [row]"
    unfolding txn_ok_def by blast
  then show "length (txns_in {''pending''} u k s') \<le> 1"
  proof cases
    case same
    with le show ?thesis by (simp add: txns_in_def)
  next
    case upd
    have "length (txns_in {''pending''} u k s') \<le> length (txns_in {''pending''} u k s)"
      unfolding txns_in_def upd(2)
      by (rule length_filter_map_le) (use upd(1) in \<open>auto simp: kept_def split: if_splits\<close>)
    with le show ?thesis by simp
  next
    case ins
    show ?thesis
    proof (cases "user_id row = u \<and> tier_id row = k")
      case True
      with ins show ?thesis by (simp add: created_def txns_in_def)
    next
      case False
      with ins le show ?thesis by (auto simp: txns_in_def)
    qed
  qed
qed

lemma no_pay_url_pres:
  assumes "no_pay_url s" and "txn_ok s s'"
  shows "no_pay_url s'"
  using assms unfolding txn_ok_def no_pay_url_def list_all_iff kept_def created_def
  by auto

lemma joined_tier_mem:
  "joined_tier s k = Some tr \<Longrightarrow> tr \<in> set (tiers s) \<and> t_id tr = k"
  unfolding joined_tier_def by (auto simp: find_Some_iff)

lemma paid_txns_pres:
  assumes cat: "catalogue_ok s" and inv: "paid_txns s" and t: "tiers s' = tiers s" and ok: "txn_ok s s'"
  shows "paid_txns s'"
proof -
  from ok consider
      (same) "txns s' = txns s"
    | (upd) i f where "kept f" "txns s' = map (\<lambda>x. if txn_id x = i then f x else x) (txns s)"
    | (ins) row where "created s row" "txns s' = txns s @ [row]"
    unfolding txn_ok_def by blast
  then show ?thesis
  proof cases
    case same
    with inv t show ?thesis by (simp add: paid_txns_def)
  next
    case upd
    with inv t show ?thesis
      by (auto simp: paid_txns_def list_all_iff kept_def)
  next
    case ins
    from ins(1) obtain tr where tr: "tr \<in> set (tiers s)" "tier_id row = t_id tr" "price_pula tr \<noteq> 0"
      by (auto simp: created_def)
    have "t_name tr' \<noteq> ''free''" if "tr' \<in> set (tiers s)" "t_id tr' = tier_id row" for tr'
    proof -
      from cat have "inj_on t_id (set (tiers s))" by (simp add: catalogue_ok_def distinct_map)
      with that tr have "tr' = tr" by (auto dest: inj_onD)
      with cat tr show ?thesis by (auto simp: catalogue_ok_def list_all_iff)
    qed
    with inv t ins(2) show ?thesis
      by (auto simp: paid_txns_def list_all_iff)
  qed
qed

lemma free_null_pres:
  assumes paid: "paid_txns s" and inv: "free_null s" and t: "tiers s' = tiers s" and ok: "user_ok s s'"
  shows "free_null s'"
proof -
  have j: "joined_tier s' = joined_tier s" by (simp add: joined_tier_def t fun_eq_iff)
  from ok consider
      (same) "users s' = users s"
    | (upd) uid k ex where "ex = None \<or> k \<in> tier_id ` set (txns s)"
        "users s' = map (\<lambda>u. if u_id u = uid
                               then u\<lparr>current_tier_id := k, subscription_expires_at := ex\<rparr>
                               else u) (users s)"
    unfolding user_ok_def by blast
  then show ?thesis
  proof cases
    case same
    with inv j show ?thesis by (simp add: free_null_def)
  next
    case upd
    have new: "case joined_tier s k of None \<Rightarrow> True
               | Some tr \<Rightarrow> t_name tr \<noteq> ''free'' \<or> ex = None"
    proof (cases "joined_tier s k")
      case None
      then show ?thesis by simp
    next
      case (Some tr)
      then have m: "tr \<in> set (tiers s)" "t_id tr = k" by (auto dest: joined_tier_mem)
      from upd(1) show ?thesis
      proof
        assume "ex = None"
        with Some show ?thesis by simp
      next
        assume "k \<in> tier_id ` set (txns s)"
        with paid m have "t_name tr \<noteq> ''free''"
          by (auto simp: paid_txns_def list_all_iff)
        with Some show ?thesis by simp
      qed
    qed
    with inv show ?thesis
      unfolding free_null_def j upd(2) list_all_iff by (auto split: option.splits)
  qed
qed

lemma ledger_inv_pres:
  assumes "ledger_inv s" and "effect s s'"
  shows "ledger_inv s'"
  using assms paid_txns_pres [of s s'] free_null_pres [of s s']
  by (auto simp: ledger_inv_def effect_def catalogue_ok_def)

lemma run_ledger_inv: "ledger_inv s \<Longrightarrow> ledger_inv (run rs s)"
proof (induction rs arbitrary: s)
  case Nil
  then show ?case by simp
next
  case (Cons a rs)
  obtain e r where a: "a = (e, r)" by (cases a)
  from Cons.prems effect_handle [of s e r] have "ledger_inv (handle e r s)"
    by (rule ledger_inv_pres)
  then show ?case unfolding a by (simp add: Cons.IH)
qed

lemma run_no_pay_url: "no_pay_url s \<Longrightarrow> no_pay_url (run rs s)"
proof (induction rs arbitrary: s)
  case Nil
  then show ?case by simp
next
  case (Cons a rs)
  obtain e r where a: "a = (e, r)" by (cases a)
  from effect_handle [of s e r] have "txn_ok s (handle e r s)" by (simp add: effect_def)
  with Cons.prems have "no_pay_url (handle e r s)" by (rule no_pay_url_pres)
  then show ?case unfolding a by (simp add: Cons.IH)
qed

lemma run_pending: "at_most_one {''pending''} s \<Longrightarrow> at_most_one {''pending''} (run rs s)"
proof (induction rs arbitrary: s)
  case Nil
  then show ?case by simp
next
  case (Cons a rs)
  obtain e r where a: "a = (e, r)" by (cases a)
  from effect_handle [of s e r] have "txn_ok s (handle e r s)" by (simp add: effect_def)
  with Cons.prems have "at_most_one {''pending''} (handle e r s)" by (rule pending_pres)
  then show ?case unfolding a by (simp add: Cons.IH)
qed

section \<open>Initiation dedup\<close>

lemma initiate_dedup:
  assumes "single (filter (\<lambda>t. t_name t = tier_value (sub_tier sub)) (tiers s)) = Inr (Some tr)"
    and "price_pula tr \<noteq> 0"
    and "txns_in {''pending''} uid (t_id tr) s = x # xs"
  shows "initiate_subscription e uid sub s =
           (Inr \<lparr>init_payment_url = orange_money_pay_url x, init_transaction_id = txn_id x,
                 init_status = ''pending'',
                 init_message =
                   ''You already have a pending payment for '' @ t_name tr @
                   '' tier. Complete your existing payment or wait for it to expire.''\<rparr>,
            s)"
  using assms by (simp add: initiate_subscription_def txns_in_def)

lemma inserted_cases:
  assumes "inserted e row url msg s = (Inr r, s1)"
  shows "tiers s1 = tiers s \<and> txns s1 = txns s @ [row] \<and> init_transaction_id r = uuid4 e"
  using assms by (auto simp: inserted_def insert_txn_def)

lemma initiate_cases:
  assumes "initiate_subscription e uid sub s = (Inr r, s1)"
  shows "\<exists>tr. single (filter (\<lambda>t. t_name t = tier_value (sub_tier sub)) (tiers s)) = Inr (Some tr)
           \<and> price_pula tr \<noteq> 0
           \<and> ((\<exists>x xs. txns_in {''pending''} uid (t_id tr) s = x # xs \<and> s1 = s
                    \<and> init_transaction_id r = txn_id x)
              \<or> (txns_in {''pending''} uid (t_id tr) s = [] \<and> tiers s1 = tiers s
                  \<and> (\<exists>row. txns s1 = txns s @ [row] \<and> user_id row = uid
                         \<and> tier_id row = t_id tr \<and> status row = ''pending''
                         \<and> txn_id row = init_transaction_id r)))"
proof -
  from assms obtain tr where
    tr: "single (filter (\<lambda>t. t_name t = tier_value (sub_tier sub)) (tiers s)) = Inr (Some tr)"
    and price: "price_pula tr \<noteq> 0"
    by (auto simp: initiate_subscription_def split: sum.splits option.splits if_splits)
  show ?thesis
  proof (cases "txns_in {''pending''} uid (t_id tr) s")
    case (Cons x xs)
    from initiate_dedup [OF tr price Cons, of e] assms tr price Cons show ?thesis by auto
  next
    case Nil
    obtain q s0 where c: "initiate_payment e (txn_ref e) (price_pula tr) s = (q, s0)"
      by (meson surj_pair)
    then have t: "tiers s0 = tiers s" "txns s0 = txns s"
      by (auto dest: initiate_payment_tables)
    from assms tr price Nil c obtain row url msg s' where
      i: "inserted e row url msg s' = (Inr r, s1)" and s': "s' = s \<or> s' = s0" and
      row: "user_id row = uid" "tier_id row = t_id tr" "status row = ''pending''" "txn_id row = uuid4 e"
      by (auto simp: initiate_subscription_def txns_in_def txn_data_def
            split: if_splits sum.splits error.splits)
    from inserted_cases [OF i] s' t row
    have "tiers s1 = tiers s \<and> txns s1 = txns s @ [row] \<and> txn_id row = init_transaction_id r"
      by auto
    with tr price Nil row show ?thesis by blast
  qed
qed

lemma initiate_twice:
  assumes "initiate_subscription e uid sub s = (Inr r1, s1)"
  shows "(\<exists>r2. initiate_subscription e' uid sub s1 = (Inr r2, s1)
              \<and> init_transaction_id r2 = init_transaction_id r1)
         \<and> length (txns s1) \<le> Suc (length (txns s))"
proof -
  from initiate_cases [OF assms] obtain tr where
    tr: "single (filter (\<lambda>t. t_name t = tier_value (sub_tier sub)) (tiers s)) = Inr (Some tr)"
    and price: "price_pula tr \<noteq> 0"
    and c: "(\<exists>x xs. txns_in {''pending''} uid (t_id tr) s = x # xs \<and> s1 = s
                    \<and> init_transaction_id r1 = txn_id x)
              \<or> (txns_in {''pending''} uid (t_id tr) s = [] \<and> tiers s1 = tiers s
                  \<and> (\<exists>row. txns s1 = txns s @ [row] \<and> user_id row = uid
                         \<and> tier_id row = t_id tr \<and> status row = ''pending''
                         \<and> txn_id row = init_transaction_id r1))"
    by blast
  from c show ?thesis
  proof
    assume "\<exists>x xs. txns_in {''pending''} uid (t_id tr) s = x # xs \<and> s1 = s
                    \<and> init_transaction_id r1 = txn_id x"
    then obtain x xs where x: "txns_in {''pending''} uid (t_id tr) s = x # xs" "s1 = s"
      "init_transaction_id r1 = txn_id x" by blast
    from initiate_dedup [OF tr price x(1), of e'] x show ?thesis by simp
  next
    assume "txns_in {''pending''} uid (t_id tr) s = [] \<and> tiers s1 = tiers s
                  \<and> (\<exists>row. txns s1 = txns s @ [row] \<and> user_id row = uid
                         \<and> tier_id row = t_id tr \<and> status row = ''pending''
                         \<and> txn_id row = init_transaction_id r1)"
    then obtain row where n: "txns_in {''pending''} uid (t_id tr) s = []" "tiers s1 = tiers s"
      "txns s1 = txns s @ [row]" "user_id row = uid" "tier_id row = t_id tr"
      "status row = ''pending''" "txn_id row = init_transaction_id r1" by blast
    have tr1: "single (filter (\<lambda>t. t_name t = tier_value (sub_tier sub)) (tiers s1)) = Inr (Some tr)"
      using tr n(2) by simp
    have p1: "txns_in {''pending''} uid (t_id tr) s1 = row # []"
      using n by (simp add: txns_in_def)
    from initiate_dedup [OF tr1 price p1, of e'] n show ?thesis by simp
  qed
qed

lemma initiate_creates:
  assumes tr: "single (filter (\<lambda>t. t_name t = tier_value (sub_tier sub)) (tiers s)) = Inr (Some tr)"
    and price: "price_pula tr \<noteq> 0"
    and none: "txns_in {''pending''} uid (t_id tr) s = []"
  shows "\<exists>r s2 row. initiate_subscription e uid sub s = (Inr r, s2)
           \<and> init_transaction_id r = uuid4 e \<and> init_status r = ''pending''
           \<and> txns s2 = txns s @ [row]
           \<and> txn_id row = uuid4 e \<and> user_id row = uid \<and> tier_id row = t_id tr
           \<and> status row = ''pending'' \<and> amount_pula row = price_pula tr"
proof -
  from none have f: "filter (\<lambda>x. user_id x = uid \<and> tier_id x = t_id tr \<and> status x = ''pending'')
                       (txns s) = []"
    by (simp add: txns_in_def)
  obtain q s0 where c: "initiate_payment e (txn_ref e) (price_pula tr) s = (q, s0)"
    by (meson surj_pair)
  then have t: "txns s0 = txns s" by (auto dest: initiate_payment_tables)
  show ?thesis
  proof (cases q)
    case (Inl err)
    with c have "err = HTTPException 502" by (auto dest: initiate_payment_error)
    with Inl c tr price f t show ?thesis
      by (simp add: initiate_subscription_def inserted_def insert_txn_def txn_data_def)
  next
    case (Inr om)
    with c tr price f t show ?thesis
      by (simp add: initiate_subscription_def inserted_def insert_txn_def txn_data_def)
  qed
qed

lemma txns_in_Cons:
  assumes "txns_in S uid k s = x # xs"
  shows "x \<in> set (txns s) \<and> user_id x = uid \<and> tier_id x = k \<and> status x \<in> S"
proof -
  from assms have "x \<in> set (txns_in S uid k s)" by simp
  then show ?thesis by (simp add: txns_in_def)
qed

text \<open>
  Claim C5, as the code has it. The lookup of initiation selects the transactions of the
  user for the tier with status \<^verbatim>\<open>pending\<close> only. So what every sequence of requests
  keeps is: at most one \<^emph>\<open>pending\<close> transaction for each (user, tier) pair. Where a
  pending transaction of the user for the tier exists, initiation answers with the first
  such transaction (its id, status \<^verbatim>\<open>pending\<close>) and leaves the state as it is: no new
  row. Where none exists, whatever other transactions the pair has (one in
  \<^verbatim>\<open>awaiting_verification\<close> does not count), initiation answers with the fresh id and
  appends one pending row for the user and the tier. And an initiation that answered is
  answered again, by any later initiation of the same user for the same tier on the state
  it left, with the same transaction id and without a write.
\<close>

theorem initiation_dedup_pending:
  "(at_most_one {''pending''} s \<longrightarrow> at_most_one {''pending''} (run rs s))
   \<and> (single (filter (\<lambda>t. t_name t = tier_value (sub_tier sub)) (tiers s)) = Inr (Some tr)
      \<and> price_pula tr \<noteq> 0 \<and> txns_in {''pending''} uid (t_id tr) s = x # xs \<longrightarrow>
        x \<in> set (txns s) \<and> user_id x = uid \<and> tier_id x = t_id tr \<and> status x = ''pending''
        \<and> initiate_subscription e uid sub s =
            (Inr \<lparr>init_payment_url = orange_money_pay_url x, init_transaction_id = txn_id x,
                  init_status = ''pending'',
                  init_message =
                    ''You already have a pending payment for '' @ t_name tr @
                    '' tier. Complete your existing payment or wait for it to expire.''\<rparr>,
             s))
   \<and> (single (filter (\<lambda>t. t_name t = tier_value (sub_tier sub)) (tiers s)) = Inr (Some tr)
      \<and> price_pula tr \<noteq> 0 \<and> txns_in {''pending''} uid (t_id tr) s = [] \<longrightarrow>
        (\<exists>r s2 row. initiate_subscription e uid sub s = (Inr r, s2)
           \<and> init_transaction_id r = uuid4 e \<and> init_status r = ''pending''
           \<and> txns s2 = txns s @ [row]
           \<and> txn_id row = uuid4 e \<and> user_id row = uid \<and> tier_id row = t_id tr
           \<and> status row = ''pending'' \<and> amount_pula row = price_pula tr))
   \<and> (initiate_subscription e uid sub s = (Inr r1, s1) \<longrightarrow>
        (\<exists>r2. initiate_subscription e' uid sub s1 = (Inr r2, s1)
              \<and> init_transaction_id r2 = init_transaction_id r1)
        \<and> length (txns s1) \<le> Suc (length (txns s)))"
proof (intro conjI impI)
  assume "at_most_one {''pending''} s"
  then show "at_most_one {''pending''} (run rs s)" by (rule run_pending)
next
  assume a: "single (filter (\<lambda>t. t_name t = tier_value (sub_tier sub)) (tiers s)) = Inr (Some tr)
      \<and> price_pula tr \<noteq> 0 \<and> txns_in {''pending''} uid (t_id tr) s = x # xs"
  then have m: "x \<in> set (txns s) \<and> user_id x = uid \<and> tier_id x = t_id tr \<and> status x \<in> {''pending''}"
    by (blast dest: txns_in_Cons)
  from m show "x \<in> set (txns s)" "user_id x = uid" "tier_id x = t_id tr" "status x = ''pending''"
    by simp_all
  from a show "initiate_subscription e uid sub s =
            (Inr \<lparr>init_payment_url = orange_money_pay_url x, init_transaction_id = txn_id x,
                  init_status = ''pending'',
                  init_message =
                    ''You already have a pending payment for '' @ t_name tr @
                    '' tier. Complete your existing payment or wait for it to expire.''\<rparr>,
             s)"
    by (blast intro: initiate_dedup)
next
  assume a: "single (filter (\<lambda>t. t_name t = tier_value (sub_tier sub)) (tiers s)) = Inr (Some tr)
      \<and> price_pula tr \<noteq> 0 \<and> txns_in {''pending''} uid (t_id tr) s = []"
  show "\<exists>r s2 row. initiate_subscription e uid sub s = (Inr r, s2)
           \<and> init_transaction_id r = uuid4 e \<and> init_status r = ''pending''
           \<and> txns s2 = txns s @ [row]
           \<and> txn_id row = uuid4 e \<and> user_id row = uid \<and> tier_id row = t_id tr
           \<and> status row = ''pending'' \<and> amount_pula row = price_pula tr"
    by (rule initiate_creates) (use a in blast)+
next
  assume a: "initiate_subscription e uid sub s = (Inr r1, s1)"
  from initiate_twice [OF a, of e']
  show "\<exists>r2. initiate_subscription e' uid sub s1 = (Inr r2, s1)
              \<and> init_transaction_id r2 = init_transaction_id r1"
    and "length (txns s1) \<le> Suc (length (txns s))"
    by blast+
qed

section \<open>The redirect URL of a reused transaction\<close>

text \<open>
  Claim C10. From a store in which no transaction row holds a value in
  \<^verbatim>\<open>orange_money_pay_url\<close>, after any sequence of requests, the initiation that finds a
  pending transaction of the user for the tier answers with that transaction, with
  \<^verbatim>\<open>payment_url\<close> null, and leaves the state as it is: no handler writes the column the
  answer reads.
\<close>

theorem dedup_payment_url_none:
  assumes "no_pay_url s0"
    and "single (filter (\<lambda>t. t_name t = tier_value (sub_tier sub)) (tiers (run rs s0)))
           = Inr (Some tr)"
    and "price_pula tr \<noteq> 0"
    and "txns_in {''pending''} uid (t_id tr) (run rs s0) = x # xs"
  shows "initiate_subscription e uid sub (run rs s0) =
           (Inr \<lparr>init_payment_url = None, init_transaction_id = txn_id x,
                 init_status = ''pending'',
                 init_message =
                   ''You already have a pending payment for '' @ t_name tr @
                   '' tier. Complete your existing payment or wait for it to expire.''\<rparr>,
            run rs s0)"
proof -
  from assms(1) have "no_pay_url (run rs s0)" by (rule run_no_pay_url)
  moreover from assms(4) have "x \<in> set (txns_in {''pending''} uid (t_id tr) (run rs s0))" by simp
  then have "x \<in> set (txns (run rs s0))" by (simp add: txns_in_def)
  ultimately have "orange_money_pay_url x = None" by (simp add: no_pay_url_def list_all_iff)
  with initiate_dedup [OF assms(2,3,4), of e] show ?thesis by simp
qed

section \<open>The free tier has no expiry\<close>

lemma enforce_downgraded_user:
  assumes "check_and_enforce_subscription now uid s = (Inr a, s')" and "was_downgraded a"
  shows "t_name (tier a) = ''free''
         \<and> list_all (\<lambda>u. u_id u \<noteq> uid \<or> (current_tier_id u = t_id (tier a)
                            \<and> subscription_expires_at u = None)) (users s')"
proof -
  from enforce_downgradeD [OF assms] obtain u ft p where
    ft: "single (filter (\<lambda>t. t_name t = ''free'') (tiers s)) = Inr (Some ft)" and
    a: "a = \<lparr>tier = ft, is_active = True, expires_at = None,
              was_downgraded = True, previous_tier = p\<rparr>" and
    s': "s' = update_users uid
                (\<lambda>u. u\<lparr>current_tier_id := t_id ft, subscription_expires_at := None\<rparr>) s"
    by blast
  from ft have "t_name ft = ''free''" by (auto dest: single_filter_mem)
  moreover have "list_all (\<lambda>u. u_id u \<noteq> uid \<or> (current_tier_id u = t_id ft
                            \<and> subscription_expires_at u = None))
                  (map (\<lambda>u. if u_id u = uid
                            then u\<lparr>current_tier_id := t_id ft, subscription_expires_at := None\<rparr>
                            else u) xs)" for xs
    by (induction xs) simp_all
  ultimately show ?thesis by (simp add: a s' update_users_def)
qed

text \<open>
  Claim C9. Where tier ids are unique, a tier named free costs nothing, no transaction is
  for a free tier and every user on a free tier has a null expiry, every user on a free
  tier has a null expiry after any sequence of requests. In particular the downgrade of
  expiry enforcement leaves the user on the free tier it returns, with a null expiry.
\<close>

theorem free_tier_expiry_null:
  "(ledger_inv s \<longrightarrow> free_null (run rs s))
   \<and> (check_and_enforce_subscription now uid t = (Inr a, t') \<and> was_downgraded a \<longrightarrow>
        t_name (tier a) = ''free''
        \<and> list_all (\<lambda>u. u_id u \<noteq> uid \<or> (current_tier_id u = t_id (tier a)
                          \<and> subscription_expires_at u = None)) (users t'))"
  using run_ledger_inv [of s rs] enforce_downgraded_user [of now uid t a t']
  by (auto simp: ledger_inv_def)

section \<open>Worked requests\<close>

lemma ex_lookup_basic:
  "tiers s = ex_tiers \<Longrightarrow>
   single (filter (\<lambda>t. t_name t = tier_value (sub_tier (ex_sub pm))) (tiers s)) = Inr (Some ex_basic)"
  by (simp add: ex_tiers_def ex_sub_def ex_basic_def)

lemma ex_initiate_manual:
  assumes "tiers s = ex_tiers" and "txns_in {''pending''} uid ''t1'' s = []"
  shows "snd (initiate_subscription e uid (ex_sub ''manual'') s)
           = insert_txn (txn_data e uid ex_basic ''manual'') s"
proof -
  have l: "single (filter (\<lambda>t. t_name t = tier_value (sub_tier (ex_sub ''manual''))) (tiers s))
             = Inr (Some ex_basic)"
    using assms(1) by (rule ex_lookup_basic)
  have p: "price_pula ex_basic \<noteq> 0" "t_id ex_basic = ''t1''"
    "sub_payment_method (ex_sub ''manual'') = ''manual''"
    by (simp_all add: ex_basic_def ex_sub_def)
  from assms(2) have f: "filter (\<lambda>x. user_id x = uid \<and> tier_id x = ''t1'' \<and> status x = ''pending'')
                    (txns s) = []"
    by (simp add: txns_in_def)
  show ?thesis
    unfolding initiate_subscription_def l by (simp add: p f inserted_def)
qed

lemma ex_requests_statuses:
  "map (\<lambda>x. (user_id x, tier_id x, status x)) (txns (run ex_requests (ex_state None)))
     = [(''u1'', ''t1'', ''awaiting_verification''), (''u1'', ''t1'', ''pending'')]"
proof -
  let ?u1 = "''0a1b2c3d-1111-4222-8333-444455556666''"
  let ?c = "\<lparr>conf_transaction_id = ?u1, conf_payment_reference = ''MP240105.1234''\<rparr>"
  define row1 where "row1 = txn_data ex_env ''u1'' ex_basic ''manual''"
  define row2 where "row2 = txn_data ex_env2 ''u1'' ex_basic ''manual''"
  have r1: "txn_id row1 = ?u1" "user_id row1 = ''u1''" "tier_id row1 = ''t1''" "status row1 = ''pending''"
    by (simp_all add: row1_def txn_data_def ex_env_def ex_basic_def)
  have r2: "user_id row2 = ''u1''" "tier_id row2 = ''t1''" "status row2 = ''pending''"
    by (simp_all add: row2_def txn_data_def ex_basic_def)
  define s1 where "s1 = handle ex_env (Initiate ''u1'' (ex_sub ''manual'')) (ex_state None)"
  define s2 where "s2 = handle ex_env (Confirm ''u1'' ?c) s1"
  define s3 where "s3 = handle ex_env2 (Initiate ''u1'' (ex_sub ''manual'')) s2"
  have t0: "tiers (ex_state None) = ex_tiers" "txns (ex_state None) = []"
    by (simp_all add: ex_state_def)
  have "s1 = insert_txn row1 (ex_state None)"
    unfolding s1_def row1_def handle.simps
    by (rule ex_initiate_manual) (simp_all add: t0 txns_in_def)
  then have s1: "tiers s1 = ex_tiers" "txns s1 = [row1]"
    by (simp_all add: insert_txn_def t0)
  have c: "single (filter (\<lambda>x. txn_id x = conf_transaction_id ?c \<and> user_id x = ''u1''
                               \<and> status x = ''pending'') (txns s1)) = Inr (Some row1)"
    by (simp add: s1 r1)
  have "s2 = update_txns ?u1
               (\<lambda>x. x\<lparr>user_payment_reference := Some ''MP240105.1234'',
                       status := ''awaiting_verification''\<rparr>) s1"
    unfolding s2_def handle.simps confirm_payment_def c
    by (simp add: Let_def r1 split: sum.splits)
  then have s2: "tiers s2 = ex_tiers"
    "txns s2 = [row1\<lparr>user_payment_reference := Some ''MP240105.1234'',
                      status := ''awaiting_verification''\<rparr>]"
    by (simp_all add: update_txns_def s1 r1)
  have "s3 = insert_txn row2 s2"
    unfolding s3_def row2_def handle.simps
    by (rule ex_initiate_manual) (simp_all add: s2 txns_in_def)
  then have s3: "txns s3 = [row1\<lparr>user_payment_reference := Some ''MP240105.1234'',
                      status := ''awaiting_verification''\<rparr>, row2]"
    by (simp add: insert_txn_def s2)
  have "run ex_requests (ex_state None) = s3"
    by (simp add: ex_requests_def s3_def s2_def s1_def)
  then show ?thesis by (simp add: s3 r1 r2)
qed

text \<open>
  The invariant over both non-terminal statuses fails. A user initiates a manual payment
  for the basic tier, confirms it (the transaction is then \<^verbatim>\<open>awaiting_verification\<close>) and
  initiates again: the lookup finds no pending transaction and a second row is created, so
  the pair has two non-terminal transactions.
\<close>

theorem two_non_terminal_transactions:
  "at_most_one {''pending'', ''awaiting_verification''} (ex_state None)
   \<and> length (txns_in {''pending'', ''awaiting_verification''} ''u1'' ''t1''
               (run ex_requests (ex_state None))) = 2
   \<and> \<not> at_most_one {''pending'', ''awaiting_verification''} (run ex_requests (ex_state None))"
proof -
  have a: "at_most_one {''pending'', ''awaiting_verification''} (ex_state None)"
    by (simp add: at_most_one_def ex_defs)
  note ex_requests_statuses
  then obtain x y where xy: "txns (run ex_requests (ex_state None)) = [x, y]"
    "user_id x = ''u1''" "tier_id x = ''t1''" "status x = ''awaiting_verification''"
    "user_id y = ''u1''" "tier_id y = ''t1''" "status y = ''pending''"
    by (auto simp: map_eq_Cons_conv)
  then have l: "length (txns_in {''pending'', ''awaiting_verification''} ''u1'' ''t1''
               (run ex_requests (ex_state None))) = 2"
    by (simp add: txns_in_def)
  have "\<not> at_most_one {''pending'', ''awaiting_verification''} (run ex_requests (ex_state None))"
  proof
    assume "at_most_one {''pending'', ''awaiting_verification''} (run ex_requests (ex_state None))"
    then have "length (txns_in {''pending'', ''awaiting_verification''} ''u1'' ''t1''
               (run ex_requests (ex_state None))) \<le> 1"
      unfolding at_most_one_iff by blast
    with l show False by simp
  qed
  with a l show ?thesis by blast
qed

lemma ex_initiate_manual_full:
  assumes "tiers s = ex_tiers" and "txns_in {''pending''} uid ''t1'' s = []"
  shows "initiate_subscription e uid (ex_sub ''manual'') s
           = (Inr \<lparr>init_payment_url = None, init_transaction_id = uuid4 e,
                   init_status = ''pending'', init_message = manual_message e ex_basic\<rparr>,
              insert_txn (txn_data e uid ex_basic ''manual'') s)"
proof -
  have l: "single (filter (\<lambda>t. t_name t = tier_value (sub_tier (ex_sub ''manual''))) (tiers s))
             = Inr (Some ex_basic)"
    using assms(1) by (rule ex_lookup_basic)
  have p: "price_pula ex_basic \<noteq> 0" "t_id ex_basic = ''t1''"
    "sub_payment_method (ex_sub ''manual'') = ''manual''"
    by (simp_all add: ex_basic_def ex_sub_def)
  from assms(2) have f: "filter (\<lambda>x. user_id x = uid \<and> tier_id x = ''t1'' \<and> status x = ''pending'')
                    (txns s) = []"
    by (simp add: txns_in_def)
  show ?thesis
    unfolding initiate_subscription_def l by (simp add: p f inserted_def)
qed

theorem initiation_dedup_pending_witness:
  "at_most_one {''pending''} (ex_state None)
   \<and> at_most_one {''pending''} (run ex_requests (ex_state None))
   \<and> initiate_subscription ex_env ''u1'' (ex_sub ''manual'') (ex_pay ''pending'')
       = (Inr \<lparr>init_payment_url = None, init_transaction_id = ''x1'',
               init_status = ''pending'',
               init_message = ''You already have a pending payment for basic tier. Complete your existing payment or wait for it to expire.''\<rparr>,
          ex_pay ''pending'')
   \<and> (\<exists>r s2 row. initiate_subscription ex_env ''u1'' (ex_sub ''manual'')
                     (ex_pay ''awaiting_verification'') = (Inr r, s2)
          \<and> init_transaction_id r = ''0a1b2c3d-1111-4222-8333-444455556666''
          \<and> txns s2 = [ex_txn ''awaiting_verification'', row]
          \<and> user_id row = ''u1'' \<and> tier_id row = ''t1'' \<and> status row = ''pending'')
   \<and> fst (initiate_subscription ex_env ''u1'' (ex_sub ''manual'') (ex_state None))
       = Inr \<lparr>init_payment_url = None,
               init_transaction_id = ''0a1b2c3d-1111-4222-8333-444455556666'',
               init_status = ''pending'', init_message = manual_message ex_env ex_basic\<rparr>
   \<and> (\<exists>r2. initiate_subscription ex_env2 ''u1'' (ex_sub ''manual'')
               (snd (initiate_subscription ex_env ''u1'' (ex_sub ''manual'') (ex_state None)))
             = (Inr r2, snd (initiate_subscription ex_env ''u1'' (ex_sub ''manual'') (ex_state None)))
           \<and> init_transaction_id r2 = ''0a1b2c3d-1111-4222-8333-444455556666'')
   \<and> length (txns (snd (initiate_subscription ex_env ''u1'' (ex_sub ''manual'') (ex_state None))))
       = 1"
proof -
  let ?sub = "ex_sub ''manual''"
  let ?r1 = "\<lparr>init_payment_url = None, init_transaction_id = uuid4 ex_env,
               init_status = ''pending'', init_message = manual_message ex_env ex_basic\<rparr>"
  let ?s1 = "insert_txn (txn_data ex_env ''u1'' ex_basic ''manual'') (ex_state None)"
  have t0: "tiers (ex_state None) = ex_tiers" "txns (ex_state None) = []"
    by (simp_all add: ex_state_def)
  have tp: "tiers (ex_pay st) = ex_tiers" "txns (ex_pay st) = [ex_txn st]" for st
    by (simp_all add: ex_pay_def ex_state_def)
  have b: "price_pula ex_basic \<noteq> 0" "t_id ex_basic = ''t1''" "t_name ex_basic = ''basic''"
    by (simp_all add: ex_basic_def)
  have x: "user_id (ex_txn st) = ''u1''" "tier_id (ex_txn st) = ''t1''" "status (ex_txn st) = st"
    "txn_id (ex_txn st) = ''x1''" "orange_money_pay_url (ex_txn st) = None" for st
    by (simp_all add: ex_txn_def)
  have u: "uuid4 ex_env = ''0a1b2c3d-1111-4222-8333-444455556666''"
    by (simp add: ex_env_def)
  have a: "at_most_one {''pending''} (ex_state None)"
    by (simp add: at_most_one_def t0)
  have h2: "single (filter (\<lambda>t. t_name t = tier_value (sub_tier ?sub)) (tiers (ex_pay ''pending'')))
              = Inr (Some ex_basic)
            \<and> price_pula ex_basic \<noteq> 0
            \<and> txns_in {''pending''} ''u1'' (t_id ex_basic) (ex_pay ''pending'')
                = ex_txn ''pending'' # []"
    using ex_lookup_basic [where s = "ex_pay ''pending''" and pm = "''manual''"]
    by (simp add: b tp txns_in_def x)
  have h3: "single (filter (\<lambda>t. t_name t = tier_value (sub_tier ?sub))
                (tiers (ex_pay ''awaiting_verification''))) = Inr (Some ex_basic)
            \<and> price_pula ex_basic \<noteq> 0
            \<and> txns_in {''pending''} ''u1'' (t_id ex_basic) (ex_pay ''awaiting_verification'') = []"
    using ex_lookup_basic [where s = "ex_pay ''awaiting_verification''" and pm = "''manual''"]
    by (simp add: b tp txns_in_def x)
  have i: "initiate_subscription ex_env ''u1'' ?sub (ex_state None) = (Inr ?r1, ?s1)"
    by (rule ex_initiate_manual_full) (simp_all add: t0 txns_in_def)
  have n: "length (txns ?s1) = 1" by (simp add: insert_txn_def t0)
  from initiation_dedup_pending [where s = "ex_state None" and rs = ex_requests] a
  have c1: "at_most_one {''pending''} (run ex_requests (ex_state None))" by blast
  from initiation_dedup_pending [where s = "ex_pay ''pending''" and sub = ?sub and tr = ex_basic
      and uid = "''u1''" and x = "ex_txn ''pending''" and xs = "[]" and e = ex_env] h2
  have c2: "initiate_subscription ex_env ''u1'' ?sub (ex_pay ''pending'') =
            (Inr \<lparr>init_payment_url = orange_money_pay_url (ex_txn ''pending''),
                  init_transaction_id = txn_id (ex_txn ''pending''),
                  init_status = ''pending'',
                  init_message =
                    ''You already have a pending payment for '' @ t_name ex_basic @
                    '' tier. Complete your existing payment or wait for it to expire.''\<rparr>,
             ex_pay ''pending'')"
    by blast
  from initiation_dedup_pending [where s = "ex_pay ''awaiting_verification''" and sub = ?sub
      and tr = ex_basic and uid = "''u1''" and e = ex_env] h3
  obtain r s2 row where c3: "initiate_subscription ex_env ''u1'' ?sub
         (ex_pay ''awaiting_verification'') = (Inr r, s2)"
      "init_transaction_id r = uuid4 ex_env"
      "txns s2 = txns (ex_pay ''awaiting_verification'') @ [row]"
      "user_id row = ''u1''" "tier_id row = t_id ex_basic" "status row = ''pending''"
    by blast
  from initiation_dedup_pending [where s = "ex_state None" and e = ex_env and uid = "''u1''"
      and sub = ?sub and ?r1.0 = ?r1 and ?s1.0 = ?s1 and e' = ex_env2] i
  have c4: "\<exists>r2. initiate_subscription ex_env2 ''u1'' ?sub ?s1 = (Inr r2, ?s1)
              \<and> init_transaction_id r2 = init_transaction_id ?r1"
    by blast
  have c3': "\<exists>r s2 row. initiate_subscription ex_env ''u1'' ?sub
                     (ex_pay ''awaiting_verification'') = (Inr r, s2)
          \<and> init_transaction_id r = ''0a1b2c3d-1111-4222-8333-444455556666''
          \<and> txns s2 = [ex_txn ''awaiting_verification'', row]
          \<and> user_id row = ''u1'' \<and> tier_id row = ''t1'' \<and> status row = ''pending''"
    using c3 by (intro exI [of _ r] exI [of _ s2] exI [of _ row]) (simp add: u tp b)
  from c2 have c2': "initiate_subscription ex_env ''u1'' ?sub (ex_pay ''pending'')
       = (Inr \<lparr>init_payment_url = None, init_transaction_id = ''x1'',
               init_status = ''pending'',
               init_message = ''You already have a pending payment for basic tier. Complete your existing payment or wait for it to expire.''\<rparr>,
          ex_pay ''pending'')"
    by (simp add: x b)
  from a c1 c2' c3' c4 n show ?thesis unfolding i by (simp add: u)
qed

lemma ex_initiate_om_full:
  assumes "tiers s = ex_tiers" and "txns_in {''pending''} uid ''t1'' s = []"
    and "access_token s = None"
  shows "initiate_subscription ex_env uid (ex_sub ''orange_money'') s
           = (Inr \<lparr>init_payment_url = Some ''https://pay.example/1'',
                   init_transaction_id = uuid4 ex_env, init_status = ''pending'',
                   init_message = ''Redirecting to Orange Money for payment''\<rparr>,
              insert_txn ((txn_data ex_env uid ex_basic ''orange_money'')
                            \<lparr>orange_money_order_id := Some (txn_ref ex_env),
                             orange_money_pay_token := Some ''ptk''\<rparr>)
                (s\<lparr>access_token := Some ''tok'',
                   token_expires_at := Some (clock ex_env + 3600000000)\<rparr>))"
proof -
  have l: "single (filter (\<lambda>t. t_name t = tier_value (sub_tier (ex_sub ''orange_money''))) (tiers s))
             = Inr (Some ex_basic)"
    using assms(1) by (rule ex_lookup_basic)
  have p: "price_pula ex_basic \<noteq> 0" "t_id ex_basic = ''t1''"
    "sub_payment_method (ex_sub ''orange_money'') = ''orange_money''"
    by (simp_all add: ex_basic_def ex_sub_def)
  from assms(2) have f: "filter (\<lambda>x. user_id x = uid \<and> tier_id x = ''t1'' \<and> status x = ''pending'')
                    (txns s) = []"
    by (simp add: txns_in_def)
  have r: "token_reply ex_env = Response (''tok'', Some 3600)"
    "initiate_reply ex_env = Response \<lparr>om_payment_url = Some ''https://pay.example/1'',
                                       om_pay_token = Some ''ptk''\<rparr>"
    by (simp_all add: ex_env_def)
  have "initiate_payment ex_env (txn_ref ex_env) (price_pula ex_basic) s
             = (Inr \<lparr>om_payment_url = Some ''https://pay.example/1'', om_pay_token = Some ''ptk''\<rparr>,
                s\<lparr>access_token := Some ''tok'',
                  token_expires_at := Some (clock ex_env + 3600000000)\<rparr>)"
    by (simp add: initiate_payment_def get_access_token_def request_token_def assms(3) r
          datetime_add_def timedelta_seconds_def in_datetime_def datetime_min_def
          datetime_max_def ex_env_def)
  then show ?thesis
    unfolding initiate_subscription_def l by (simp add: p f inserted_def)
qed

theorem dedup_payment_url_none_witness:
  "no_pay_url (ex_state None)
   \<and> fst (initiate_subscription ex_env ''u1'' (ex_sub ''orange_money'') (ex_state None))
       = Inr \<lparr>init_payment_url = Some ''https://pay.example/1'',
               init_transaction_id = ''0a1b2c3d-1111-4222-8333-444455556666'',
               init_status = ''pending'',
               init_message = ''Redirecting to Orange Money for payment''\<rparr>
   \<and> initiate_subscription ex_env2 ''u1'' (ex_sub ''orange_money'')
        (run [(ex_env, Initiate ''u1'' (ex_sub ''orange_money''))] (ex_state None))
       = (Inr \<lparr>init_payment_url = None,
                init_transaction_id = ''0a1b2c3d-1111-4222-8333-444455556666'',
                init_status = ''pending'',
                init_message = ''You already have a pending payment for basic tier. Complete your existing payment or wait for it to expire.''\<rparr>,
          run [(ex_env, Initiate ''u1'' (ex_sub ''orange_money''))] (ex_state None))"
proof -
  let ?rs = "[(ex_env, Initiate ''u1'' (ex_sub ''orange_money''))]"
  let ?row = "(txn_data ex_env ''u1'' ex_basic ''orange_money'')
                            \<lparr>orange_money_order_id := Some (txn_ref ex_env),
                             orange_money_pay_token := Some ''ptk''\<rparr>"
  have t0: "tiers (ex_state None) = ex_tiers" "txns (ex_state None) = []"
    "access_token (ex_state None) = None"
    by (simp_all add: ex_state_def)
  have u: "uuid4 ex_env = ''0a1b2c3d-1111-4222-8333-444455556666''"
    by (simp add: ex_env_def)
  have h1: "no_pay_url (ex_state None)" by (simp add: no_pay_url_def t0)
  define tok where "tok = Some (clock ex_env + 3600000000)"
  from ex_initiate_om_full [of "ex_state None" "''u1''"] t0 have
    i: "initiate_subscription ex_env ''u1'' (ex_sub ''orange_money'') (ex_state None)
           = (Inr \<lparr>init_payment_url = Some ''https://pay.example/1'',
                   init_transaction_id = uuid4 ex_env, init_status = ''pending'',
                   init_message = ''Redirecting to Orange Money for payment''\<rparr>,
              insert_txn ?row ((ex_state None)\<lparr>access_token := Some ''tok'', token_expires_at := tok\<rparr>))"
    by (simp add: txns_in_def tok_def)
  have run: "run ?rs (ex_state None)
               = insert_txn ?row ((ex_state None)\<lparr>access_token := Some ''tok'', token_expires_at := tok\<rparr>)"
    by (simp add: i)
  have row: "user_id ?row = ''u1''" "tier_id ?row = ''t1''" "status ?row = ''pending''"
    "txn_id ?row = ''0a1b2c3d-1111-4222-8333-444455556666''"
    by (simp_all add: txn_data_def ex_basic_def u)
  have t1: "tiers (run ?rs (ex_state None)) = ex_tiers" "txns (run ?rs (ex_state None)) = [?row]"
    unfolding run by (simp_all add: insert_txn_def t0)
  have h2: "single (filter (\<lambda>t. t_name t = tier_value (sub_tier (ex_sub ''orange_money'')))
              (tiers (run ?rs (ex_state None)))) = Inr (Some ex_basic)"
    using t1(1) by (rule ex_lookup_basic)
  have h3: "price_pula ex_basic \<noteq> 0" by (simp add: ex_basic_def)
  have tid: "t_id ex_basic = ''t1''" by (simp add: ex_basic_def)
  have h4: "txns_in {''pending''} ''u1'' (t_id ex_basic) (run ?rs (ex_state None)) = ?row # []"
    unfolding txns_in_def t1 tid by (simp add: row)
  have n: "t_name ex_basic = ''basic''" by (simp add: ex_basic_def)
  from dedup_payment_url_none [OF h1 h2 h3 h4, where e = ex_env2] h1 show ?thesis
    unfolding i by (simp add: row u n)
qed

theorem free_tier_expiry_null_witness:
  "ledger_inv (ex_pay ''pending'')
   \<and> free_null (run [(ex_env, Webhook (ex_cb ''SUCCESS'' (Finite 50))),
                      (ex_env_late, Enforce ''u1'')] (ex_pay ''pending''))
   \<and> check_and_enforce_subscription 200 ''u1'' (ex_state (Some 100))
       = (Inr \<lparr>tier = \<lparr>t_id = ''t0'', t_name = ''free'', price_pula = 0, listing_limit = Some 1\<rparr>,
                is_active = True, expires_at = None, was_downgraded = True,
                previous_tier = Some ''basic''\<rparr>,
          snd (check_and_enforce_subscription 200 ''u1'' (ex_state (Some 100))))
   \<and> list_all (\<lambda>u. u_id u \<noteq> ''u1'' \<or> (current_tier_id u = ''t0''
                          \<and> subscription_expires_at u = None))
        (users (snd (check_and_enforce_subscription 200 ''u1'' (ex_state (Some 100)))))"
proof -
  let ?a = "\<lparr>tier = \<lparr>t_id = ''t0'', t_name = ''free'', price_pula = 0, listing_limit = Some 1\<rparr>,
                is_active = True, expires_at = None, was_downgraded = True,
                previous_tier = Some ''basic''\<rparr>"
  let ?rs = "[(ex_env, Webhook (ex_cb ''SUCCESS'' (Finite 50))), (ex_env_late, Enforce ''u1'')]"
  have h1: "ledger_inv (ex_pay ''pending'')"
    by (simp add: ledger_inv_def catalogue_ok_def paid_txns_def free_null_def joined_tier_def
          ex_defs)
  have "fst (check_and_enforce_subscription 200 ''u1'' (ex_state (Some 100))) = Inr ?a"
    by (simp add: check_and_enforce_subscription_def ex_state_def ex_user_def ex_tiers_def
        joined_tier_def fromisoformat_def in_datetime_def datetime_min_def datetime_max_def)
  then have h2: "check_and_enforce_subscription 200 ''u1'' (ex_state (Some 100))
       = (Inr ?a, snd (check_and_enforce_subscription 200 ''u1'' (ex_state (Some 100))))"
    by (metis prod.collapse)
  have h3: "was_downgraded ?a" by simp
  from free_tier_expiry_null [of "ex_pay ''pending''" ?rs 200 "''u1''" "ex_state (Some 100)" ?a
      "snd (check_and_enforce_subscription 200 ''u1'' (ex_state (Some 100)))"] h1 h2 h3
  have "free_null (run ?rs (ex_pay ''pending''))
        \<and> list_all (\<lambda>u. u_id u \<noteq> ''u1'' \<or> (current_tier_id u = t_id (tier ?a)
                          \<and> subscription_expires_at u = None))
        (users (snd (check_and_enforce_subscription 200 ''u1'' (ex_state (Some 100)))))"
    by blast
  with h1 h2 show ?thesis by simp
qed

section \<open>The status request that fails\<close>

text \<open>
  The path of the status inquiry that does fall back: with a token in hand, a
  \<^verbatim>\<open>RequestException\<close> of the status request itself gives \<^verbatim>\<open>UNKNOWN\<close>, and the inquiry
  answers with the row as it was read and leaves both tables as they are.
\<close>

lemma poll_request_exception_falls_back:
  assumes "single (filter (\<lambda>x. txn_id x = i \<and> user_id x = uid) (txns s)) = Inr (Some txn)"
    and "txn_tier_name s txn = Inr name"
    and "payment_method txn = ''orange_money''" and "status txn = ''pending''"
    and "om_order_id txn \<noteq> []"
    and "get_access_token e s = (Inr tok, s')"
    and "status_reply e = RequestException"
    and "str_upper e ''UNKNOWN'' = ''UNKNOWN''"
  shows "check_payment_status e i uid s = (Inr (current_db_status txn name), s')
         \<and> txns s' = txns s \<and> users s' = users s"
proof -
  have c: "check_transaction_status e (om_order_id txn) (amount_pula txn) s
             = (Inr (Some ''UNKNOWN''), s')"
    using assms(6,7) by (simp add: check_transaction_status_def)
  from assms(6) have "txns s' = txns s \<and> users s' = users s"
    by (auto dest: get_access_token_tables)
  then show ?thesis
    using assms(1-5,8) by (simp add: check_payment_status_def c)
qed

end
